theory Spec2Isabelle
  imports Complex_Main "HOL-Library.Multiset" "HOL-Library.Log_Nat"
begin

section \<open>Numbers\<close>

text \<open>
  A JavaScript \<^verbatim>\<open>number\<close> is an IEEE 754 double: a finite value, which is a rational
  \<open>m * 2^q\<close> with \<open>\<bar>m\<bar> < 2^53\<close> and \<open>- 1074 \<le> q\<close>, an infinity, or \<^verbatim>\<open>NaN\<close>. Negative
  zero is not told apart from zero. An arithmetic operation returns the exact result
  rounded to the nearest double, a tie going to the even significand, and an infinity
  from \<open>2^1024 - 2^970\<close> on.
\<close>

datatype number = Finite rat | PosInfinity | NegInfinity | NaN

text \<open>For \<open>0 < x\<close>, the exponent \<open>e\<close> with \<open>2^e \<le> x < 2^(e + 1)\<close>.\<close>

definition binaryExponent :: "rat \<Rightarrow> int" where
  "binaryExponent x = (if 1 \<le> x then bitlen \<lfloor>x\<rfloor> - 1 else - bitlen (\<lceil>1 / x\<rceil> - 1))"

definition roundHalfEven :: "rat \<Rightarrow> int" where
  "roundHalfEven y =
     (let f = \<lfloor>y\<rfloor>; r = y - of_int f
      in if r < 1 / 2 then f else if 1 / 2 < r then f + 1 else if even f then f else f + 1)"

text \<open>
  Rounding to a double: the magnitude is rounded to a multiple of \<open>2^q\<close>, where \<open>q\<close> is
  52 below its exponent, and \<open>- 1074\<close> for the subnormal numbers. The result is an
  infinity when the rounded magnitude has an exponent above 1023, that is from \<open>2^1024\<close>
  on.
\<close>

definition roundToDouble :: "rat \<Rightarrow> number" where
  "roundToDouble x =
     (if x = 0 then Finite 0
      else
        (let a = \<bar>x\<bar>;
             q = max (binaryExponent a - 52) (- 1074);
             r = of_int (roundHalfEven (a / 2 powi q)) * 2 powi q
         in if 1024 \<le> binaryExponent r then (if 0 < x then PosInfinity else NegInfinity)
            else Finite (if 0 < x then r else - r)))"

text \<open>A rational is a double when rounding leaves it as it is.\<close>

definition isDouble :: "rat \<Rightarrow> bool" where
  "isDouble x = (roundToDouble x = Finite x)"

text \<open>The operators \<^verbatim>\<open>+\<close>, \<^verbatim>\<open>*\<close> and \<^verbatim>\<open>/\<close> on numbers.\<close>

fun numberAdd :: "number \<Rightarrow> number \<Rightarrow> number" where
  "numberAdd NaN y = NaN"
| "numberAdd x NaN = NaN"
| "numberAdd PosInfinity NegInfinity = NaN"
| "numberAdd NegInfinity PosInfinity = NaN"
| "numberAdd PosInfinity y = PosInfinity"
| "numberAdd x PosInfinity = PosInfinity"
| "numberAdd NegInfinity y = NegInfinity"
| "numberAdd x NegInfinity = NegInfinity"
| "numberAdd (Finite a) (Finite b) = roundToDouble (a + b)"

text \<open>The infinity of the sign of \<open>s\<close>, for \<open>s\<close> other than 0.\<close>

definition infinityOfSign :: "rat \<Rightarrow> number" where
  "infinityOfSign s = (if 0 < s then PosInfinity else NegInfinity)"

fun numberMultiply :: "number \<Rightarrow> number \<Rightarrow> number" where
  "numberMultiply NaN y = NaN"
| "numberMultiply x NaN = NaN"
| "numberMultiply (Finite a) (Finite b) = roundToDouble (a * b)"
| "numberMultiply (Finite a) PosInfinity = (if a = 0 then NaN else infinityOfSign a)"
| "numberMultiply (Finite a) NegInfinity = (if a = 0 then NaN else infinityOfSign (- a))"
| "numberMultiply PosInfinity (Finite b) = (if b = 0 then NaN else infinityOfSign b)"
| "numberMultiply NegInfinity (Finite b) = (if b = 0 then NaN else infinityOfSign (- b))"
| "numberMultiply PosInfinity PosInfinity = PosInfinity"
| "numberMultiply NegInfinity NegInfinity = PosInfinity"
| "numberMultiply PosInfinity NegInfinity = NegInfinity"
| "numberMultiply NegInfinity PosInfinity = NegInfinity"

fun numberDivide :: "number \<Rightarrow> number \<Rightarrow> number" where
  "numberDivide NaN y = NaN"
| "numberDivide x NaN = NaN"
| "numberDivide (Finite a) (Finite b) =
     (if b = 0 then (if a = 0 then NaN else infinityOfSign a) else roundToDouble (a / b))"
| "numberDivide (Finite a) PosInfinity = Finite 0"
| "numberDivide (Finite a) NegInfinity = Finite 0"
| "numberDivide PosInfinity (Finite b) = (if 0 \<le> b then PosInfinity else NegInfinity)"
| "numberDivide NegInfinity (Finite b) = (if 0 \<le> b then NegInfinity else PosInfinity)"
| "numberDivide PosInfinity PosInfinity = NaN"
| "numberDivide PosInfinity NegInfinity = NaN"
| "numberDivide NegInfinity PosInfinity = NaN"
| "numberDivide NegInfinity NegInfinity = NaN"

section \<open>Decimal rendering\<close>

definition digitChar :: "nat \<Rightarrow> char" where
  "digitChar d = char_of (48 + d)"

text \<open>The decimal digits of a non-negative integer, without leading zeros (\<^verbatim>\<open>"0"\<close> for zero).\<close>

fun natToString :: "nat \<Rightarrow> string" where
  "natToString n =
     (if n < 10 then [digitChar n] else natToString (n div 10) @ [digitChar (n mod 10)])"

declare natToString.simps [simp del]

definition nearestInteger :: "rat \<Rightarrow> nat" where
  "nearestInteger y = nat \<lfloor>y + 1 / 2\<rfloor>"

text \<open>
  \<^verbatim>\<open>Number.prototype.toFixed(f)\<close> for a finite value: the integer \<open>n\<close> nearest to
  \<open>x * 10^f\<close> (the larger one of two), its digits padded with zeros to at least \<open>f + 1\<close>
  characters, and a point before the last \<open>f\<close> of them; a negative number is formatted
  by its magnitude after a minus sign. From \<open>10^21\<close> on JavaScript switches to exponent
  notation, which is not modelled: no theorem below formats such a value.
\<close>

definition fixedDigits :: "nat \<Rightarrow> rat \<Rightarrow> string" where
  "fixedDigits f x =
     (let n = nearestInteger (x * 10 ^ f);
          m = natToString n
      in if f = 0 then m
         else
           (let m' = (if length m \<le> f then replicate (f + 1 - length m) (CHR ''0'') @ m else m);
                k = length m'
            in take (k - f) m' @ CHR ''.'' # drop (k - f) m'))"

definition toFixed :: "nat \<Rightarrow> rat \<Rightarrow> string" where
  "toFixed f x = (if x < 0 then CHR ''-'' # fixedDigits f (- x) else fixedDigits f x)"

text \<open>\<^verbatim>\<open>n.toFixed(f)\<close> on any number: what is not finite is written by name.\<close>

definition numberToFixed :: "nat \<Rightarrow> number \<Rightarrow> string" where
  "numberToFixed f n =
     (case n of
        Finite x \<Rightarrow> toFixed f x
      | PosInfinity \<Rightarrow> ''Infinity''
      | NegInfinity \<Rightarrow> ''-Infinity''
      | NaN \<Rightarrow> ''NaN'')"

text \<open>
  Reading a plain decimal numeral back (as \<^verbatim>\<open>Number(s)\<close> does on such strings): digits,
  optionally followed by a point and at least one more digit.
\<close>

definition isDigit :: "char \<Rightarrow> bool" where
  "isDigit c = (48 \<le> (of_char c :: nat) \<and> (of_char c :: nat) \<le> 57)"

definition digitValue :: "char \<Rightarrow> nat" where
  "digitValue c = of_char c - 48"

definition digitsValue :: "string \<Rightarrow> nat" where
  "digitsValue s = foldl (\<lambda>acc c. 10 * acc + digitValue c) 0 s"

definition isPoint :: "char \<Rightarrow> bool" where
  "isPoint c = (c = CHR ''.'')"

text \<open>The number of digits after the point, when the string is a plain decimal numeral.\<close>

definition fractionDigits :: "string \<Rightarrow> nat option" where
  "fractionDigits s =
     (let a = takeWhile (\<lambda>c. \<not> isPoint c) s;
          r = dropWhile (\<lambda>c. \<not> isPoint c) s
      in if a = [] \<or> \<not> list_all isDigit a then None
         else (case r of
                 [] \<Rightarrow> Some 0
               | p # b \<Rightarrow> if b \<noteq> [] \<and> list_all isDigit b then Some (length b) else None))"

definition decimalValue :: "string \<Rightarrow> rat option" where
  "decimalValue s =
     (case fractionDigits s of
        None \<Rightarrow> None
      | Some f \<Rightarrow> Some (of_nat (digitsValue (filter (\<lambda>c. \<not> isPoint c) s)) / 10 ^ f))"

definition inClosedRange :: "rat \<Rightarrow> rat \<Rightarrow> string \<Rightarrow> bool" where
  "inClosedRange lo hi s = (case decimalValue s of None \<Rightarrow> False | Some v \<Rightarrow> lo \<le> v \<and> v \<le> hi)"

definition inHalfOpenRange :: "rat \<Rightarrow> rat \<Rightarrow> string \<Rightarrow> bool" where
  "inHalfOpenRange lo hi s = (case decimalValue s of None \<Rightarrow> False | Some v \<Rightarrow> lo \<le> v \<and> v < hi)"

section \<open>The dashboard\<close>

subsection \<open>Rows read from the data service\<close>

record Farm =
  id' :: string
  name :: string
  location :: string
  crop_type :: string
  area_hectares :: number
  created_at :: string

record Prediction =
  id' :: string
  yield_per_hectare :: number
  confidence_score :: number
  created_at :: string
  farm_id :: string

record Profile =
  display_name :: string
  farm_size_hectares :: "number option"
  primary_crops :: "string list option"
  subscription_tier :: string

subsection \<open>The queries\<close>

text \<open>
  Modelled from the spec: the client \<^verbatim>\<open>supabase\<close> of
  \<^verbatim>\<open>@/integrations/supabase/client\<close> and the hosted service behind it are not part of
  the sources. The spec names the interface (\<^verbatim>\<open>select\<close>, \<^verbatim>\<open>order\<close>, \<^verbatim>\<open>limit\<close>,
  \<^verbatim>\<open>single\<close> on named tables) and what the dashboard obtains through it (all farms
  newest first, up to 10 most recent predictions, the single profile row). A query is
  the record of the builder calls made on it; the service orders the rows of the named
  table by the requested column, keeps at most the requested number of them, and answers
  a \<^verbatim>\<open>single\<close> query with a row only when exactly one row is left.
\<close>

record Query =
  table :: string
  columns :: string
  ordering :: "(string \<times> bool) option"
  rowLimit :: "nat option"
  singleRow :: bool

definition from_table :: "string \<Rightarrow> Query" where
  "from_table t = \<lparr>table = t, columns = [], ordering = None, rowLimit = None, singleRow = False\<rparr>"

definition select :: "string \<Rightarrow> Query \<Rightarrow> Query" where
  "select c q = q\<lparr>columns := c\<rparr>"

definition order :: "string \<Rightarrow> bool \<Rightarrow> Query \<Rightarrow> Query" where
  "order c ascending q = q\<lparr>ordering := Some (c, ascending)\<rparr>"

definition limit :: "nat \<Rightarrow> Query \<Rightarrow> Query" where
  "limit n q = q\<lparr>rowLimit := Some n\<rparr>"

definition single :: "Query \<Rightarrow> Query" where
  "single q = q\<lparr>singleRow := True\<rparr>"

record 'a QueryResult =
  data :: "'a option"
  error :: "string option"

text \<open>The rows a query selects from a table, \<open>key c\<close> giving the value a row is ordered
  by for column \<open>c\<close>.\<close>

definition selectRows :: "(string \<Rightarrow> 'r \<Rightarrow> int) \<Rightarrow> 'r list \<Rightarrow> Query \<Rightarrow> 'r list" where
  "selectRows key rows q =
     (let ordered =
            (case ordering q of
               None \<Rightarrow> rows
             | Some (c, ascending) \<Rightarrow>
                 if ascending then sort_key (key c) rows else rev (sort_key (key c) rows))
      in case rowLimit q of None \<Rightarrow> ordered | Some n \<Rightarrow> take n ordered)"

text \<open>The answer of the service: the selected rows, or an error when a \<^verbatim>\<open>single\<close> query
  does not select exactly one row.\<close>

definition execute :: "(string \<Rightarrow> 'r \<Rightarrow> int) \<Rightarrow> 'r list \<Rightarrow> Query \<Rightarrow> string + 'r list" where
  "execute key rows q =
     (let selected = selectRows key rows q
      in if singleRow q
         then (case selected of [r] \<Rightarrow> Inr [r] | _ \<Rightarrow> Inl ''PGRST116'')
         else Inr selected)"

text \<open>The result object of a query for a list of rows, and of a query for one row.\<close>

definition answerRows :: "(string \<Rightarrow> 'r \<Rightarrow> int) \<Rightarrow> 'r list \<Rightarrow> Query \<Rightarrow> 'r list QueryResult" where
  "answerRows key rows q =
     (case execute key rows q of
        Inl e \<Rightarrow> \<lparr>data = None, error = Some e\<rparr>
      | Inr selected \<Rightarrow> \<lparr>data = Some selected, error = None\<rparr>)"

definition answerSingle :: "(string \<Rightarrow> 'r \<Rightarrow> int) \<Rightarrow> 'r list \<Rightarrow> Query \<Rightarrow> 'r QueryResult" where
  "answerSingle key rows q =
     (case execute key rows q of
        Inl e \<Rightarrow> \<lparr>data = None, error = Some e\<rparr>
      | Inr selected \<Rightarrow>
          (case selected of
             [r] \<Rightarrow> \<lparr>data = Some r, error = None\<rparr>
           | _ \<Rightarrow> \<lparr>data = None, error = Some ''not a single row''\<rparr>))"

record Database =
  farmsTable :: "Farm list"
  predictionsTable :: "Prediction list"
  profilesTable :: "Profile list"

definition farmRows :: "Database \<Rightarrow> string \<Rightarrow> Farm list" where
  "farmRows db t = (if t = ''farms'' then farmsTable db else [])"

definition predictionRows :: "Database \<Rightarrow> string \<Rightarrow> Prediction list" where
  "predictionRows db t = (if t = ''predictions'' then predictionsTable db else [])"

definition profileRows :: "Database \<Rightarrow> string \<Rightarrow> Profile list" where
  "profileRows db t = (if t = ''profiles'' then profilesTable db else [])"

text \<open>The ordering keys of the rows: \<open>instant\<close> reads a timestamp text as a point in time.\<close>

definition farmKey :: "(string \<Rightarrow> int) \<Rightarrow> string \<Rightarrow> Farm \<Rightarrow> int" where
  "farmKey instant c f = (if c = ''created_at'' then instant (Farm.created_at f) else 0)"

definition predictionKey :: "(string \<Rightarrow> int) \<Rightarrow> string \<Rightarrow> Prediction \<Rightarrow> int" where
  "predictionKey instant c p = (if c = ''created_at'' then instant (Prediction.created_at p) else 0)"

definition profileKey :: "string \<Rightarrow> Profile \<Rightarrow> int" where
  "profileKey c p = 0"

text \<open>The three queries of \<^verbatim>\<open>fetchDashboardData\<close>, in the order of the array given to
  \<^verbatim>\<open>Promise.all\<close>.\<close>

definition farmsQuery :: Query where
  "farmsQuery = order ''created_at'' False (select ''*'' (from_table ''farms''))"

definition predictionsQuery :: Query where
  "predictionsQuery =
     limit 10 (order ''created_at'' False (select ''*'' (from_table ''predictions'')))"

definition profileQuery :: Query where
  "profileQuery = single (select ''*'' (from_table ''profiles''))"

definition dashboardQueries :: "Query list" where
  "dashboardQueries = [farmsQuery, predictionsQuery, profileQuery]"

text \<open>
  \<^verbatim>\<open>fetchDashboardData\<close> up to its \<^verbatim>\<open>await\<close>: the three requests are sent, in the order
  of the array, and only then the function waits, for the three results together. What
  it does with the results is \<open>fetchDashboardData\<close> below.
\<close>

datatype Step = Send Query | AwaitAll

definition fetchSteps :: "Step list" where
  "fetchSteps = map Send dashboardQueries @ [AwaitAll]"

text \<open>What the effect hook does when the component mounts.\<close>

datatype Effect = Navigate string | Run "Step list"

definition onMount :: "'u option \<Rightarrow> Effect" where
  "onMount user = (case user of None \<Rightarrow> Navigate ''/auth'' | Some u \<Rightarrow> Run fetchSteps)"

subsection \<open>View state and the fetch\<close>

record Dashboard =
  farms :: "Farm list"
  predictions :: "Prediction list"
  profile :: "Profile option"
  loading :: bool
  console :: "(string \<times> string) list"

definition initialDashboard :: Dashboard where
  "initialDashboard =
     \<lparr>farms = [], predictions = [], profile = None, loading = True, console = []\<rparr>"

text \<open>A settled promise. The query promises of the client are fulfilled with a
  \<open>QueryResult\<close>; a promise is rejected with the reason thrown.\<close>

datatype 'a Promise = Fulfilled 'a | Rejected string

text \<open>
  \<^verbatim>\<open>Promise.all\<close> of three promises. Of several rejected promises JavaScript reports
  the one that settled first; the model reports the first one of the array.
\<close>

definition promiseAll :: "'a Promise \<Rightarrow> 'b Promise \<Rightarrow> 'c Promise \<Rightarrow> ('a \<times> 'b \<times> 'c) Promise" where
  "promiseAll p1 p2 p3 =
     (case p1 of
        Rejected e \<Rightarrow> Rejected e
      | Fulfilled a \<Rightarrow>
          (case p2 of
             Rejected e \<Rightarrow> Rejected e
           | Fulfilled b \<Rightarrow>
               (case p3 of
                  Rejected e \<Rightarrow> Rejected e
                | Fulfilled c \<Rightarrow> Fulfilled (a, b, c))))"

definition fetchDashboardData ::
  "Farm list QueryResult Promise \<Rightarrow> Prediction list QueryResult Promise \<Rightarrow>
   Profile QueryResult Promise \<Rightarrow> Dashboard \<Rightarrow> Dashboard" where
  "fetchDashboardData p1 p2 p3 st =
     (let st' =
            (case promiseAll p1 p2 p3 of
               Fulfilled (farmsResult, predictionsResult, profileResult) \<Rightarrow>
                 (let s1 = (case data farmsResult of Some v \<Rightarrow> st\<lparr>farms := v\<rparr> | None \<Rightarrow> st);
                      s2 = (case data predictionsResult of
                              Some v \<Rightarrow> s1\<lparr>predictions := v\<rparr>
                            | None \<Rightarrow> s1)
                  in case data profileResult of
                       Some v \<Rightarrow> s2\<lparr>profile := Some v\<rparr>
                     | None \<Rightarrow> s2)
             | Rejected e \<Rightarrow>
                 st\<lparr>console := console st @ [(''Error fetching dashboard data:'', e)]\<rparr>)
      in st'\<lparr>loading := False\<rparr>)"

text \<open>The fetch when the service answers all three queries from the database \<open>db\<close>.\<close>

definition loadFrom :: "(string \<Rightarrow> int) \<Rightarrow> Database \<Rightarrow> Dashboard \<Rightarrow> Dashboard" where
  "loadFrom instant db st =
     fetchDashboardData
       (Fulfilled (answerRows (farmKey instant) (farmRows db (table farmsQuery)) farmsQuery))
       (Fulfilled
          (answerRows (predictionKey instant) (predictionRows db (table predictionsQuery))
             predictionsQuery))
       (Fulfilled (answerSingle profileKey (profileRows db (table profileQuery)) profileQuery))
       st"

subsection \<open>Derived values\<close>

definition reduce :: "('b \<Rightarrow> 'a \<Rightarrow> 'b) \<Rightarrow> 'b \<Rightarrow> 'a list \<Rightarrow> 'b" where
  "reduce f init xs = foldl f init xs"

text \<open>\<^verbatim>\<open>xs.slice(i, j)\<close> for indices that are not negative.\<close>

definition slice :: "nat \<Rightarrow> nat \<Rightarrow> 'a list \<Rightarrow> 'a list" where
  "slice i j xs = take (j - i) (drop i xs)"

definition totalArea :: "Farm list \<Rightarrow> number" where
  "totalArea fs = reduce (\<lambda>sum farm. numberAdd sum (area_hectares farm)) (Finite 0) fs"

text \<open>The length of an array is below \<open>2^32\<close>, so it is a double as it is.\<close>

definition avgYield :: "Prediction list \<Rightarrow> number" where
  "avgYield ps =
     (if length ps > 0
      then numberDivide (reduce (\<lambda>sum pred. numberAdd sum (yield_per_hectare pred)) (Finite 0) ps)
             (Finite (of_nat (length ps)))
      else Finite 0)"

record ChartEntry =
  date :: string
  yield :: number
  confidence :: number

text \<open>\<open>toLocaleDateString\<close> stands for \<^verbatim>\<open>new Date(s).toLocaleDateString()\<close>, which depends
  on the locale and time zone of the browser.\<close>

definition chartEntry :: "(string \<Rightarrow> string) \<Rightarrow> Prediction \<Rightarrow> ChartEntry" where
  "chartEntry toLocaleDateString pred =
     \<lparr>date = toLocaleDateString (Prediction.created_at pred),
      yield = yield_per_hectare pred,
      confidence = confidence_score pred\<rparr>"

definition chartData :: "(string \<Rightarrow> string) \<Rightarrow> Prediction list \<Rightarrow> ChartEntry list" where
  "chartData toLocaleDateString ps = rev (map (chartEntry toLocaleDateString) (slice 0 7 ps))"

subsection \<open>What is rendered\<close>

text \<open>
  The texts of the page that depend on the state: the header, the four statistics cards
  (without the count of farms of the last 30 days, which reads the clock), the trend
  chart or its placeholder, and the notices shown under empty lists.
\<close>

datatype Trend = LineChart "ChartEntry list" | NoData string

record Page =
  greeting :: string
  plan :: string
  totalFarms :: nat
  totalAreaText :: string
  avgYieldText :: string
  totalPredictions :: nat
  trend :: Trend
  farmsNotice :: "string option"
  predictionsNotice :: "string option"

datatype Screen = Spinner | Content Page

text \<open>\<^verbatim>\<open>s || d\<close> on an optional string: \<open>d\<close> when \<open>s\<close> is missing or empty.\<close>

definition orElse :: "string option \<Rightarrow> string \<Rightarrow> string" where
  "orElse s d = (case s of None \<Rightarrow> d | Some v \<Rightarrow> if v = [] then d else v)"

definition render :: "(string \<Rightarrow> string) \<Rightarrow> Dashboard \<Rightarrow> Screen" where
  "render toLocaleDateString st =
     (if loading st then Spinner
      else Content
        \<lparr>greeting = ''Welcome back, '' @ orElse (map_option display_name (profile st)) ''Farmer'',
         plan = orElse (map_option subscription_tier (profile st)) ''Free'' @ '' Plan'',
         totalFarms = length (farms st),
         totalAreaText = numberToFixed 1 (totalArea (farms st)) @ '' ha'',
         avgYieldText = numberToFixed 1 (avgYield (predictions st)) @ '' t/ha'',
         totalPredictions = length (predictions st),
         trend =
           (if length (chartData toLocaleDateString (predictions st)) > 0
            then LineChart (chartData toLocaleDateString (predictions st))
            else NoData ''No prediction data available''),
         farmsNotice =
           (if length (farms st) = 0
            then Some ''No farms yet. Create your first prediction to get started!''
            else None),
         predictionsNotice =
           (if length (predictions st) = 0
            then Some ''No predictions yet. Start by creating your first yield prediction!''
            else None)\<rparr>)"

section \<open>The prediction intake form\<close>

record FormData =
  name :: string
  phone :: string
  location :: string
  crop :: string
  area :: string
  soilPh :: string
  soilMoisture :: string
  organicMatter :: string

record Weather =
  temperature :: string
  rainfall :: string

record MockResult =
  yield :: string
  weather :: Weather
  confidence :: string
  farmData :: FormData

record Toast =
  title :: string
  description :: string
  variant :: "string option"

text \<open>A callback scheduled with \<^verbatim>\<open>setTimeout\<close>: its delay in milliseconds and the
  \<^verbatim>\<open>formData\<close> of the render whose \<^verbatim>\<open>handleSubmit\<close> created the closure.\<close>

record Timeout =
  delay :: nat
  captured :: FormData

text \<open>
  The component's state together with what it has done to its surroundings so far: the
  toasts shown, the arguments of every call of \<^verbatim>\<open>onPrediction\<close>, and the timers still
  pending, oldest first.
\<close>

record PredictionForm =
  formData :: FormData
  isLoading :: bool
  toasts :: "Toast list"
  onPrediction :: "MockResult list"
  timers :: "Timeout list"

text \<open>Four successive values of \<^verbatim>\<open>Math.random()\<close>, which are finite, in the order the
  object literal evaluates them.\<close>

record Draws =
  forYield :: rat
  forTemperature :: rat
  forRainfall :: rat
  forConfidence :: rat

definition unitInterval :: "rat \<Rightarrow> bool" where
  "unitInterval u = (0 \<le> u \<and> u < 1)"

definition possibleDraws :: "Draws \<Rightarrow> bool" where
  "possibleDraws d =
     (unitInterval (forYield d) \<and> unitInterval (forTemperature d) \<and>
      unitInterval (forRainfall d) \<and> unitInterval (forConfidence d))"

definition initialFormData :: FormData where
  "initialFormData =
     \<lparr>name = [], phone = [], location = [], crop = [], area = [], soilPh = [],
      soilMoisture = [], organicMatter = []\<rparr>"

definition initialForm :: PredictionForm where
  "initialForm =
     \<lparr>formData = initialFormData, isLoading = False, toasts = [], onPrediction = [],
      timers = []\<rparr>"

datatype Field = Name | Phone | Location | Crop | Area | SoilPh | SoilMoisture | OrganicMatter

fun setField :: "Field \<Rightarrow> string \<Rightarrow> FormData \<Rightarrow> FormData" where
  "setField Name v fd = fd\<lparr>name := v\<rparr>"
| "setField Phone v fd = fd\<lparr>phone := v\<rparr>"
| "setField Location v fd = fd\<lparr>location := v\<rparr>"
| "setField Crop v fd = fd\<lparr>crop := v\<rparr>"
| "setField Area v fd = fd\<lparr>area := v\<rparr>"
| "setField SoilPh v fd = fd\<lparr>soilPh := v\<rparr>"
| "setField SoilMoisture v fd = fd\<lparr>soilMoisture := v\<rparr>"
| "setField OrganicMatter v fd = fd\<lparr>organicMatter := v\<rparr>"

definition handleInputChange :: "Field \<Rightarrow> string \<Rightarrow> PredictionForm \<Rightarrow> PredictionForm" where
  "handleInputChange field v st = st\<lparr>formData := setField field v (formData st)\<rparr>"

text \<open>\<^verbatim>\<open>!s\<close> on a string: true for the empty string only.\<close>

definition isFalsy :: "string \<Rightarrow> bool" where
  "isFalsy s = (s = [])"

definition missingInformation :: Toast where
  "missingInformation =
     \<lparr>title = ''Missing Information'',
      description = ''Please fill in all required fields.'',
      variant = Some ''destructive''\<rparr>"

definition predictionComplete :: Toast where
  "predictionComplete =
     \<lparr>title = ''Prediction Complete!'',
      description = ''Your yield prediction has been generated successfully.'',
      variant = None\<rparr>"

text \<open>
  \<^verbatim>\<open>handleSubmit\<close> up to its return: \<^verbatim>\<open>e.preventDefault()\<close> touches nothing of the state;
  the body of the timer is \<open>timeoutCallback\<close> below.
\<close>

definition handleSubmit :: "PredictionForm \<Rightarrow> PredictionForm" where
  "handleSubmit st =
     (let fd = formData st;
          st1 = st\<lparr>isLoading := True\<rparr>
      in if isFalsy (name fd) \<or> isFalsy (phone fd) \<or> isFalsy (location fd) \<or> isFalsy (crop fd)
         then (st1\<lparr>toasts := toasts st1 @ [missingInformation]\<rparr>)\<lparr>isLoading := False\<rparr>
         else st1\<lparr>timers := timers st1 @ [\<lparr>delay = 2000, captured = fd\<rparr>]\<rparr>)"

definition mockResult :: "Draws \<Rightarrow> FormData \<Rightarrow> MockResult" where
  "mockResult d fd =
     \<lparr>yield =
        numberToFixed 2 (numberAdd (numberMultiply (Finite (forYield d)) (Finite 3)) (Finite 2)),
      weather =
        \<lparr>temperature =
           numberToFixed 1
             (numberAdd (numberMultiply (Finite (forTemperature d)) (Finite 10)) (Finite 18)),
         rainfall =
           numberToFixed 0
             (numberAdd (numberMultiply (Finite (forRainfall d)) (Finite 60)) (Finite 30))\<rparr>,
      confidence =
        numberToFixed 0
          (numberAdd (numberMultiply (Finite (forConfidence d)) (Finite 20)) (Finite 80)),
      farmData = fd\<rparr>"

text \<open>The body of the function given to \<^verbatim>\<open>setTimeout\<close>.\<close>

definition timeoutCallback :: "Draws \<Rightarrow> FormData \<Rightarrow> PredictionForm \<Rightarrow> PredictionForm" where
  "timeoutCallback d fd st =
     (let st1 = st\<lparr>onPrediction := onPrediction st @ [mockResult d fd]\<rparr>;
          st2 = st1\<lparr>isLoading := False\<rparr>
      in st2\<lparr>toasts := toasts st2 @ [predictionComplete]\<rparr>)"

text \<open>
  The event loop: the pending timers fire oldest first (they all have the same delay),
  each one consuming the next four random values.
\<close>

fun runTimers :: "Draws list \<Rightarrow> PredictionForm \<Rightarrow> PredictionForm" where
  "runTimers [] st = st"
| "runTimers (d # ds) st =
     (case timers st of
        [] \<Rightarrow> st
      | t # ts \<Rightarrow> runTimers ds (timeoutCallback d (captured t) (st\<lparr>timers := ts\<rparr>)))"

section \<open>Concrete inputs\<close>

text \<open>
  Inputs at which the theorems below are evaluated: a filled form whose optional fields are
  empty or not numeric, a form whose required fields hold blanks only, a form without a
  crop, random values, and a small database.
\<close>

definition exampleFormData :: FormData where
  "exampleFormData =
     \<lparr>name = ''Amina'', phone = ''+254 123 456 789'', location = ''Nakuru'', crop = ''maize'',
      area = [], soilPh = [], soilMoisture = ''abc'', organicMatter = []\<rparr>"

definition blankFormData :: FormData where
  "blankFormData =
     \<lparr>name = '' '', phone = ''  '', location = '' '', crop = '' '',
      area = [], soilPh = [], soilMoisture = [], organicMatter = []\<rparr>"

definition exampleForm :: PredictionForm where
  "exampleForm = initialForm\<lparr>formData := exampleFormData\<rparr>"

definition blankForm :: PredictionForm where
  "blankForm = initialForm\<lparr>formData := blankFormData\<rparr>"

definition partialForm :: PredictionForm where
  "partialForm = initialForm\<lparr>formData := exampleFormData\<lparr>crop := []\<rparr>\<rparr>"

definition nearOne :: Draws where
  "nearOne =
     \<lparr>forYield = 1023 / 1024, forTemperature = 1023 / 1024, forRainfall = 1023 / 1024,
      forConfidence = 1023 / 1024\<rparr>"

definition midDraws :: Draws where
  "midDraws =
     \<lparr>forYield = 1 / 2, forTemperature = 1 / 4, forRainfall = 0, forConfidence = 3 / 4\<rparr>"

text \<open>The doubles nearest to 0.1, 0.2 and 0.3.\<close>

definition tenth :: rat where
  "tenth = 3602879701896397 / 36028797018963968"

definition fifth :: rat where
  "fifth = 3602879701896397 / 18014398509481984"

definition threeTenths :: rat where
  "threeTenths = 5404319552844595 / 18014398509481984"

definition exampleInstant :: "string \<Rightarrow> int" where
  "exampleInstant s = foldl (\<lambda>acc c. 10 * acc + (of_char c - 48)) 0 (filter isDigit s)"

definition examplePrediction :: "nat \<Rightarrow> Prediction" where
  "examplePrediction k =
     \<lparr>id' = natToString k, yield_per_hectare = Finite (of_nat k / 2),
      confidence_score = Finite (80 + of_nat k),
      created_at = ''2024-03-'' @ (if k < 10 then ''0'' else []) @ natToString k,
      farm_id = ''f1''\<rparr>"

definition exampleFarm :: "nat \<Rightarrow> number \<Rightarrow> Farm" where
  "exampleFarm k a =
     \<lparr>Farm.id' = natToString k, Farm.name = ''Plot'', Farm.location = ''Nakuru'',
      crop_type = ''maize'', area_hectares = a,
      Farm.created_at = ''2024-02-'' @ (if k < 10 then ''0'' else []) @ natToString k\<rparr>"

definition exampleProfile :: Profile where
  "exampleProfile =
     \<lparr>display_name = ''Amina'', farm_size_hectares = None, primary_crops = Some [''maize''],
      subscription_tier = ''premium''\<rparr>"

definition exampleDatabase :: Database where
  "exampleDatabase =
     \<lparr>farmsTable = [exampleFarm 3 (Finite (5 / 2)), exampleFarm 7 (Finite (3 / 2))],
      predictionsTable = map examplePrediction [1..<13],
      profilesTable = [exampleProfile]\<rparr>"

section \<open>Rounding to a double\<close>

text \<open>\<open>binaryExponent\<close> is the exponent of its argument.\<close>

lemma binaryExponent_bounds:
  assumes "0 < x"
  shows "2 powi binaryExponent x \<le> x \<and> x < 2 powi (binaryExponent x + 1)"
proof (cases "1 \<le> x")
  case True
  define k where "k = \<lfloor>x\<rfloor>"
  define b where "b = bitlen k"
  have pos: "0 < k"
    using True by (simp add: k_def less_floor_iff)
  have bounds: "2 ^ nat (b - 1) \<le> k" "k < 2 ^ nat b"
    using bitlen_bounds [OF pos] by (simp_all add: b_def)
  have "b \<noteq> 0"
    using pos by (simp add: b_def bitlen_eq_zero_iff)
  with bitlen_nonneg [of k] have b1: "1 \<le> b"
    by (simp add: b_def)
  have e: "binaryExponent x = b - 1"
    using True by (simp add: binaryExponent_def k_def b_def)
  have "(2 :: rat) powi (b - 1) = of_int (2 ^ nat (b - 1))"
    using b1 by (simp add: power_int_def)
  also have "\<dots> \<le> of_int k"
    using bounds(1) by (simp only: of_int_le_iff)
  also have "\<dots> \<le> x"
    by (simp add: k_def)
  finally have lower: "2 powi (b - 1) \<le> x" .
  have "x < of_int (k + 1)"
    by (simp add: k_def) linarith
  also have "of_int (k + 1) \<le> (of_int (2 ^ nat b) :: rat)"
  proof -
    from bounds(2) have "k + 1 \<le> 2 ^ nat b" by linarith
    then show ?thesis by (simp only: of_int_le_iff)
  qed
  also have "(of_int (2 ^ nat b) :: rat) = 2 powi b"
    using b1 by (simp add: power_int_def)
  finally have "x < 2 powi b" .
  with lower show ?thesis
    by (simp add: e)
next
  case False
  define y where "y = 1 / x"
  define v where "v = \<lceil>y\<rceil> - 1"
  define b where "b = bitlen v"
  have y1: "1 < y"
    using assms False by (simp add: y_def)
  then have "1 < \<lceil>y\<rceil>"
    by (simp add: less_ceiling_iff)
  then have pos: "0 < v"
    by (simp add: v_def)
  have bounds: "2 ^ nat (b - 1) \<le> v" "v < 2 ^ nat b"
    using bitlen_bounds [OF pos] by (simp_all add: b_def)
  have "b \<noteq> 0"
    using pos by (simp add: b_def bitlen_eq_zero_iff)
  with bitlen_nonneg [of v] have b1: "1 \<le> b"
    by (simp add: b_def)
  have e: "binaryExponent x = - b"
    using False by (simp add: binaryExponent_def y_def v_def b_def)
  have "y \<le> of_int (v + 1)"
    by (simp add: v_def)
  also have "of_int (v + 1) \<le> (of_int (2 ^ nat b) :: rat)"
  proof -
    from bounds(2) have "v + 1 \<le> 2 ^ nat b" by linarith
    then show ?thesis by (simp only: of_int_le_iff)
  qed
  finally have "y \<le> 2 ^ nat b"
    by simp
  then have "1 / 2 ^ nat b \<le> x"
    using assms by (simp add: y_def field_simps)
  moreover have "(2 :: rat) powi (- b) = 1 / 2 ^ nat b"
    using b1 by (simp add: power_int_def field_simps)
  ultimately have lower: "2 powi (- b) \<le> x"
    by simp
  have "(of_int (2 ^ nat (b - 1)) :: rat) \<le> of_int v"
    using bounds(1) by (simp only: of_int_le_iff)
  also have "of_int v < y"
    by (simp add: v_def) linarith
  finally have "2 ^ nat (b - 1) < y"
    by simp
  then have "x < 1 / 2 ^ nat (b - 1)"
    using assms by (simp add: y_def field_simps)
  moreover have "(2 :: rat) powi (- b + 1) = 1 / 2 ^ nat (b - 1)"
  proof -
    have "- b + 1 = - (b - 1)" by simp
    then have "(2 :: rat) powi (- b + 1) = inverse (2 powi (b - 1))"
      by (simp only: power_int_minus)
    also have "(2 :: rat) powi (b - 1) = 2 ^ nat (b - 1)"
      using b1 by (simp add: power_int_def)
    finally show ?thesis
      by (simp add: field_simps)
  qed
  ultimately have "x < 2 powi (- b + 1)"
    by simp
  with lower show ?thesis
    by (simp add: e)
qed

text \<open>The test for an infinity in \<open>roundToDouble\<close> compares with \<open>2^1024\<close>.\<close>

lemma binaryExponent_overflow:
  assumes "0 < r"
  shows "(1024 \<le> binaryExponent r) = (2 ^ 1024 \<le> r)"
proof
  assume "1024 \<le> binaryExponent r"
  then have "(2 :: rat) powi 1024 \<le> 2 powi binaryExponent r"
    by (intro power_int_increasing) simp_all
  also have "\<dots> \<le> r"
    using binaryExponent_bounds [OF assms] by simp
  finally show "2 ^ 1024 \<le> r"
    by (simp add: power_int_def)
next
  assume big: "2 ^ 1024 \<le> r"
  show "1024 \<le> binaryExponent r"
  proof (rule ccontr)
    assume "\<not> 1024 \<le> binaryExponent r"
    then have "binaryExponent r + 1 \<le> 1024" by simp
    then have "(2 :: rat) powi (binaryExponent r + 1) \<le> 2 powi 1024"
      by (intro power_int_increasing) simp_all
    moreover have "r < 2 powi (binaryExponent r + 1)"
      using binaryExponent_bounds [OF assms] by simp
    ultimately have "r < 2 powi 1024" by linarith
    with big show False
      by (simp add: power_int_def)
  qed
qed

lemma roundHalfEven_lower: "of_int A \<le> y \<Longrightarrow> A \<le> roundHalfEven y"
proof -
  assume "of_int A \<le> y"
  then have "A \<le> \<lfloor>y\<rfloor>"
    by (simp add: le_floor_iff)
  then show ?thesis
    by (simp add: roundHalfEven_def Let_def)
qed

lemma roundHalfEven_upper: "y \<le> of_int B \<Longrightarrow> roundHalfEven y \<le> B"
proof -
  assume le: "y \<le> of_int B"
  show ?thesis
  proof (cases "y = of_int B")
    case True
    then show ?thesis
      by (simp add: roundHalfEven_def Let_def)
  next
    case False
    with le have "y < of_int B" by simp
    then have "\<lfloor>y\<rfloor> < B"
      by (simp add: floor_less_iff)
    then show ?thesis
      by (simp add: roundHalfEven_def Let_def)
  qed
qed

lemma binaryExponent_small:
  assumes "0 < x" "x < 2 ^ 53"
  shows "binaryExponent x \<le> 52"
proof (cases "1 \<le> x")
  case True
  then have pos: "0 < \<lfloor>x\<rfloor>"
    by (simp add: less_floor_iff)
  have "of_int \<lfloor>x\<rfloor> < (2 :: rat) ^ 53"
    using assms(2) of_int_floor_le [of x] by linarith
  then have "\<lfloor>x\<rfloor> < 2 ^ 53"
    by (metis of_int_less_iff of_int_numeral of_int_power)
  moreover have "2 ^ nat (bitlen \<lfloor>x\<rfloor> - 1) \<le> \<lfloor>x\<rfloor>"
    using bitlen_bounds [OF pos] by simp
  ultimately have "(2 :: int) ^ nat (bitlen \<lfloor>x\<rfloor> - 1) < 2 ^ 53"
    by linarith
  then have lt: "(2 :: int) ^ nat (bitlen \<lfloor>x\<rfloor> - 1) < 2 ^ 53" .
  have "nat (bitlen \<lfloor>x\<rfloor> - 1) < 53"
  proof (rule ccontr)
    assume "\<not> nat (bitlen \<lfloor>x\<rfloor> - 1) < 53"
    then have "53 \<le> nat (bitlen \<lfloor>x\<rfloor> - 1)" by simp
    then have "(2 :: int) ^ 53 \<le> 2 ^ nat (bitlen \<lfloor>x\<rfloor> - 1)"
      by (rule power_increasing) simp
    with lt show False by linarith
  qed
  then show ?thesis
    using True by (simp add: binaryExponent_def)
next
  case False
  have "0 \<le> bitlen (\<lceil>1 / x\<rceil> - 1)"
    by (rule bitlen_nonneg)
  then show ?thesis
    using False by (simp add: binaryExponent_def)
qed

text \<open>Rounding stays between integers below \<open>2^53\<close>: they are doubles themselves.\<close>

lemma roundToDouble_between:
  assumes "0 \<le> x" "of_int L \<le> x" "x \<le> of_int H" "H < 2 ^ 53"
  shows "\<exists>y. roundToDouble x = Finite y \<and> of_int L \<le> y \<and> y \<le> of_int H"
proof (cases "x = 0")
  case True
  then show ?thesis
    using assms by (simp add: roundToDouble_def)
next
  case False
  with assms(1) have pos: "0 < x" by simp
  have "of_int H < (2 :: rat) ^ 53"
    using assms(4) by (metis of_int_less_iff of_int_numeral of_int_power)
  with assms(3) have small: "x < 2 ^ 53" by linarith
  define q where "q = max (binaryExponent x - 52) (- 1074)"
  define n where "n = nat (- q)"
  have "q \<le> 0"
    using binaryExponent_small [OF pos small] by (simp add: q_def)
  then have pw: "(2 :: rat) powi q = 1 / 2 ^ n"
    by (simp add: power_int_def n_def field_simps)
  define m where "m = roundHalfEven (x / 2 powi q)"
  have scaled: "x / 2 powi q = x * 2 ^ n"
    by (simp add: pw)
  have "of_int (L * 2 ^ n) \<le> x * 2 ^ n"
    using assms(2) by simp
  then have lo: "L * 2 ^ n \<le> m"
    unfolding m_def scaled by (rule roundHalfEven_lower)
  have "x * 2 ^ n \<le> of_int (H * 2 ^ n)"
    using assms(3) by simp
  then have hi: "m \<le> H * 2 ^ n"
    unfolding m_def scaled by (rule roundHalfEven_upper)
  define r where "r = of_int m * (2 :: rat) powi q"
  have r: "r = of_int m / 2 ^ n"
    by (simp add: r_def pw)
  have "of_int (L * 2 ^ n) \<le> (of_int m :: rat)"
    using lo by (simp only: of_int_le_iff)
  then have rlo: "of_int L \<le> r"
    by (simp add: r pos_le_divide_eq)
  have "(of_int m :: rat) \<le> of_int (H * 2 ^ n)"
    using hi by (simp only: of_int_le_iff)
  then have rhi: "r \<le> of_int H"
    by (simp add: r pos_divide_le_eq)
  have "binaryExponent r \<le> 52"
  proof (cases "0 < r")
    case True
    have "r < 2 ^ 53"
      using rhi \<open>of_int H < (2 :: rat) ^ 53\<close> by linarith
    with True show ?thesis
      by (rule binaryExponent_small)
  next
    case False
    have "0 \<le> bitlen (\<lceil>1 / r\<rceil> - 1)"
      by (rule bitlen_nonneg)
    then show ?thesis
      using False by (simp add: binaryExponent_def)
  qed
  then have "roundToDouble x = Finite r"
    using pos False by (simp add: roundToDouble_def Let_def q_def [symmetric] r_def m_def)
  with rlo rhi show ?thesis by blast
qed

section \<open>Decimal strings read back\<close>

lemma digitChar_digit: "d < 10 \<Longrightarrow> isDigit (digitChar d) \<and> digitValue (digitChar d) = d"
  by (simp add: isDigit_def digitValue_def digitChar_def)

lemma digitsValue_snoc: "digitsValue (s @ [c]) = 10 * digitsValue s + digitValue c"
  by (simp add: digitsValue_def)

lemma natToString_digits: "list_all isDigit (natToString n)"
proof (induction n rule: natToString.induct)
  case (1 n)
  show ?case
  proof (cases "n < 10")
    case True
    then show ?thesis
      by (simp add: natToString.simps [of n] digitChar_digit)
  next
    case False
    then have "list_all isDigit (natToString (n div 10))"
      using "1.IH" by simp
    moreover have "isDigit (digitChar (n mod 10))"
      by (simp add: digitChar_digit)
    ultimately show ?thesis
      using False by (simp add: natToString.simps [of n])
  qed
qed

lemma natToString_nonempty: "natToString n \<noteq> []"
  by (simp add: natToString.simps [of n])

lemma digitsValue_natToString: "digitsValue (natToString n) = n"
proof (induction n rule: natToString.induct)
  case (1 n)
  show ?case
  proof (cases "n < 10")
    case True
    then show ?thesis
      by (simp add: natToString.simps [of n] digitsValue_def digitChar_digit)
  next
    case False
    then have "digitsValue (natToString (n div 10)) = n div 10"
      using "1.IH" by simp
    then show ?thesis
      using False by (simp add: natToString.simps [of n] digitsValue_snoc digitChar_digit)
  qed
qed

lemma digitsValue_zeros: "digitsValue (replicate k (CHR ''0'') @ m) = digitsValue m"
proof -
  have "foldl (\<lambda>acc c. 10 * acc + digitValue c) 0 (replicate k (CHR ''0'')) = 0"
    by (induction k) (simp_all add: digitValue_def)
  then show ?thesis
    by (simp add: digitsValue_def)
qed

lemma digits_zeros: "list_all isDigit (replicate k (CHR ''0''))"
  by (simp add: list_all_iff isDigit_def)

lemma digit_not_point: "isDigit c \<Longrightarrow> \<not> isPoint c"
  by (auto simp: isDigit_def isPoint_def)

lemma isPoint_point: "isPoint (CHR ''.'')"
  by (simp add: isPoint_def)

lemma takeWhile_digits:
  "list_all isDigit a \<Longrightarrow> takeWhile (\<lambda>c. \<not> isPoint c) (a @ CHR ''.'' # b) = a"
  by (induction a) (simp_all add: digit_not_point isPoint_point)

lemma dropWhile_digits:
  "list_all isDigit a \<Longrightarrow> dropWhile (\<lambda>c. \<not> isPoint c) (a @ CHR ''.'' # b) = CHR ''.'' # b"
  by (induction a) (simp_all add: digit_not_point isPoint_point)

lemma takeWhile_all_digits:
  "list_all isDigit a \<Longrightarrow> takeWhile (\<lambda>c. \<not> isPoint c) a = a"
  by (induction a) (simp_all add: digit_not_point)

lemma dropWhile_all_digits:
  "list_all isDigit a \<Longrightarrow> dropWhile (\<lambda>c. \<not> isPoint c) a = []"
  by (induction a) (simp_all add: digit_not_point)

lemma filter_digits: "list_all isDigit a \<Longrightarrow> filter (\<lambda>c. \<not> isPoint c) a = a"
  by (induction a) (simp_all add: digit_not_point)

text \<open>
  What is read back from a numeral with a point, and from one without.
\<close>

lemma fractionDigits_pointed:
  assumes "list_all isDigit a" "a \<noteq> []" "list_all isDigit b" "b \<noteq> []"
  shows "fractionDigits (a @ CHR ''.'' # b) = Some (length b)"
  using assms by (simp add: fractionDigits_def takeWhile_digits dropWhile_digits)

lemma decimalValue_pointed:
  assumes "list_all isDigit a" "a \<noteq> []" "list_all isDigit b" "b \<noteq> []"
  shows "decimalValue (a @ CHR ''.'' # b) = Some (of_nat (digitsValue (a @ b)) / 10 ^ length b)"
  using assms
  by (simp add: decimalValue_def fractionDigits_pointed filter_digits isPoint_point)

lemma fractionDigits_plain:
  assumes "list_all isDigit a" "a \<noteq> []"
  shows "fractionDigits a = Some 0"
  using assms by (simp add: fractionDigits_def takeWhile_all_digits dropWhile_all_digits)

lemma decimalValue_plain:
  assumes "list_all isDigit a" "a \<noteq> []"
  shows "decimalValue a = Some (of_nat (digitsValue a))"
  using assms by (simp add: decimalValue_def fractionDigits_plain filter_digits)

text \<open>
  \<open>fixedDigits\<close> writes the nearest integer of \<open>x * 10^f\<close> with a point before its last
  \<open>f\<close> digits, so the string read back is that integer divided by \<open>10^f\<close>.
\<close>

lemma fixedDigits_split:
  assumes "0 < f"
  shows "\<exists>a b. fixedDigits f x = a @ CHR ''.'' # b \<and> a \<noteq> [] \<and> length b = f \<and>
               list_all isDigit a \<and> list_all isDigit b \<and>
               digitsValue (a @ b) = nearestInteger (x * 10 ^ f)"
proof -
  define n where "n = nearestInteger (x * 10 ^ f)"
  define m where "m = natToString n"
  define m' where "m' = (if length m \<le> f then replicate (f + 1 - length m) (CHR ''0'') @ m else m)"
  define j where "j = length m' - f"
  have digits: "list_all isDigit m'"
    by (simp add: m'_def m_def natToString_digits digits_zeros)
  have val: "digitsValue m' = n"
    by (simp add: m'_def m_def digitsValue_zeros digitsValue_natToString)
  have len: "f < length m'"
    by (simp add: m'_def)
  have eq: "fixedDigits f x = take j m' @ CHR ''.'' # drop j m'"
    using assms by (simp add: fixedDigits_def Let_def n_def m_def m'_def j_def)
  have "list_all isDigit (take j m' @ drop j m')"
    using digits by simp
  then have d: "list_all isDigit (take j m')" "list_all isDigit (drop j m')"
    unfolding list_all_append by simp_all
  have "take j m' \<noteq> []"
    using len assms by (auto simp: j_def)
  moreover have "length (drop j m') = f"
    using len by (simp add: j_def)
  moreover have "digitsValue (take j m' @ drop j m') = n"
    using val by simp
  ultimately show ?thesis
    using eq d unfolding n_def by blast
qed

lemma fixedDigits_read:
  "fractionDigits (fixedDigits f x) = Some f \<and>
   decimalValue (fixedDigits f x) = Some (of_nat (nearestInteger (x * 10 ^ f)) / 10 ^ f)"
proof (cases "f = 0")
  case True
  then have "fixedDigits f x = natToString (nearestInteger x)"
    by (simp add: fixedDigits_def)
  then show ?thesis
    using True
    by (simp add: fractionDigits_plain decimalValue_plain natToString_digits
        natToString_nonempty digitsValue_natToString)
next
  case False
  then obtain a b where ab: "fixedDigits f x = a @ CHR ''.'' # b" "a \<noteq> []" "length b = f"
    "list_all isDigit a" "list_all isDigit b"
    "digitsValue (a @ b) = nearestInteger (x * 10 ^ f)"
    using fixedDigits_split [of f x] by auto
  from ab(3) False have "b \<noteq> []" by auto
  then show ?thesis
    using ab by (simp add: fractionDigits_pointed decimalValue_pointed)
qed

lemma toFixed_read:
  assumes "0 \<le> x"
  shows "fractionDigits (toFixed f x) = Some f"
    and "decimalValue (toFixed f x) = Some (of_nat (nearestInteger (x * 10 ^ f)) / 10 ^ f)"
  using assms by (simp_all add: toFixed_def fixedDigits_read)

lemma nearestInteger_bounds:
  assumes "of_nat L \<le> y" "y \<le> of_nat H"
  shows "L \<le> nearestInteger y \<and> nearestInteger y \<le> H"
proof -
  have "of_int (int L) \<le> y + 1 / 2"
    using assms(1) by simp
  then have lo: "int L \<le> \<lfloor>y + 1 / 2\<rfloor>"
    by (simp only: le_floor_iff)
  have "y + 1 / 2 < of_int (int H + 1)"
    using assms(2) by simp
  then have "\<lfloor>y + 1 / 2\<rfloor> < int H + 1"
    by (simp only: floor_less_iff)
  with lo show ?thesis
    unfolding nearestInteger_def by linarith
qed

lemma toFixed_range:
  assumes "of_nat L \<le> x * 10 ^ f" "x * 10 ^ f \<le> of_nat H" "0 \<le> x"
  shows "inClosedRange (of_nat L / 10 ^ f) (of_nat H / 10 ^ f) (toFixed f x)"
proof -
  have "L \<le> nearestInteger (x * 10 ^ f) \<and> nearestInteger (x * 10 ^ f) \<le> H"
    using assms(1,2) by (rule nearestInteger_bounds)
  then have "(of_nat L :: rat) \<le> of_nat (nearestInteger (x * 10 ^ f)) \<and>
             (of_nat (nearestInteger (x * 10 ^ f)) :: rat) \<le> of_nat H"
    by simp
  then show ?thesis
    using assms(3) by (simp add: inClosedRange_def toFixed_read divide_right_mono)
qed

section \<open>Properties of the prediction intake form\<close>

text \<open>
  The calls of \<^verbatim>\<open>onPrediction\<close> after the timers have fired: one more call for each
  pending timer that had a random draw left, in the order of the timers.
\<close>

lemma runTimers_calls:
  "onPrediction (runTimers ds st) =
   onPrediction st @ map (\<lambda>(d, t). mockResult d (captured t)) (zip ds (timers st))"
proof (induction ds arbitrary: st)
  case Nil
  show ?case by simp
next
  case (Cons d ds)
  show ?case
  proof (cases "timers st")
    case Nil
    then show ?thesis by simp
  next
    case (Cons t ts)
    then show ?thesis
      by (simp add: Cons.IH timeoutCallback_def)
  qed
qed

lemma handleSubmit_rejected:
  assumes "name (formData st) = [] \<or> phone (formData st) = [] \<or> location (formData st) = [] \<or>
           crop (formData st) = []"
  shows "handleSubmit st = st\<lparr>isLoading := False, toasts := toasts st @ [missingInformation]\<rparr>"
  using assms by (auto simp: handleSubmit_def isFalsy_def Let_def)

lemma handleSubmit_accepted:
  assumes "name (formData st) \<noteq> []" "phone (formData st) \<noteq> []" "location (formData st) \<noteq> []"
    "crop (formData st) \<noteq> []"
  shows "handleSubmit st =
         st\<lparr>isLoading := True, timers := timers st @ [\<lparr>delay = 2000, captured = formData st\<rparr>]\<rparr>"
  using assms by (simp add: handleSubmit_def isFalsy_def Let_def)

lemma accepted_calls:
  assumes "name (formData st) \<noteq> []" "phone (formData st) \<noteq> []" "location (formData st) \<noteq> []"
    "crop (formData st) \<noteq> []" "length ds = length (timers st)"
  shows "onPrediction (runTimers (ds @ [d]) (handleSubmit st)) =
         onPrediction (runTimers ds st) @ [mockResult d (formData st)]"
  using assms(5) by (simp add: handleSubmit_accepted [OF assms(1-4)] runTimers_calls)

text \<open>Further random values change nothing: the submission has scheduled one timer only.\<close>

lemma accepted_calls_more:
  assumes "name (formData st) \<noteq> []" "phone (formData st) \<noteq> []" "location (formData st) \<noteq> []"
    "crop (formData st) \<noteq> []" "length ds = length (timers st)"
  shows "onPrediction (runTimers (ds @ d # rest) (handleSubmit st)) =
         onPrediction (runTimers ds st) @ [mockResult d (formData st)]"
  using assms(5) by (simp add: handleSubmit_accepted [OF assms(1-4)] runTimers_calls)

lemma runTimers_timers: "timers (runTimers ds st) = drop (length ds) (timers st)"
proof (induction ds arbitrary: st)
  case Nil
  show ?case by simp
next
  case (Cons d ds)
  show ?case
  proof (cases "timers st")
    case Nil
    then show ?thesis by simp
  next
    case (Cons t ts)
    then show ?thesis
      by (simp add: Cons.IH timeoutCallback_def)
  qed
qed

text \<open>
  A random value scaled by \<open>A\<close> and shifted by \<open>B\<close>: both operations round, and the result
  stays between \<open>B\<close> and \<open>A + B\<close>.
\<close>

lemma scaled_draw:
  assumes "unitInterval u" "0 \<le> A" "0 \<le> B" "A + B < 2 ^ 53"
  shows "\<exists>y. numberAdd (numberMultiply (Finite u) (Finite (of_int A))) (Finite (of_int B)) = Finite y \<and>
             of_int B \<le> y \<and> y \<le> of_int (A + B)"
proof -
  have "0 \<le> u * of_int A"
    using assms(1,2) by (simp add: unitInterval_def)
  moreover have "u * of_int A \<le> 1 * of_int A"
    using assms(1,2) by (intro mult_right_mono) (simp_all add: unitInterval_def)
  ultimately have "\<exists>t. roundToDouble (u * of_int A) = Finite t \<and> of_int 0 \<le> t \<and> t \<le> of_int A"
    using assms(3,4) by (intro roundToDouble_between) simp_all
  then obtain t where t: "roundToDouble (u * of_int A) = Finite t" "0 \<le> t" "t \<le> of_int A"
    by auto
  have "\<exists>y. roundToDouble (t + of_int B) = Finite y \<and> of_int B \<le> y \<and> y \<le> of_int (A + B)"
    using t(2,3) assms(3,4) by (intro roundToDouble_between) simp_all
  then show ?thesis
    by (simp add: t(1))
qed

lemma mockResult_values:
  assumes "possibleDraws d"
  shows "\<exists>y t r c.
           yield (mockResult d fd) = toFixed 2 y \<and> 2 \<le> y \<and> y \<le> 5 \<and>
           temperature (weather (mockResult d fd)) = toFixed 1 t \<and> 18 \<le> t \<and> t \<le> 28 \<and>
           rainfall (weather (mockResult d fd)) = toFixed 0 r \<and> 30 \<le> r \<and> r \<le> 90 \<and>
           confidence (mockResult d fd) = toFixed 0 c \<and> 80 \<le> c \<and> c \<le> 100"
proof -
  have u: "unitInterval (forYield d)" "unitInterval (forTemperature d)"
    "unitInterval (forRainfall d)" "unitInterval (forConfidence d)"
    using assms by (simp_all add: possibleDraws_def)
  obtain y where y:
    "numberAdd (numberMultiply (Finite (forYield d)) (Finite 3)) (Finite 2) = Finite y"
    "2 \<le> y" "y \<le> 5"
    using scaled_draw [OF u(1), of 3 2] by auto
  obtain t where t:
    "numberAdd (numberMultiply (Finite (forTemperature d)) (Finite 10)) (Finite 18) = Finite t"
    "18 \<le> t" "t \<le> 28"
    using scaled_draw [OF u(2), of 10 18] by auto
  obtain r where r:
    "numberAdd (numberMultiply (Finite (forRainfall d)) (Finite 60)) (Finite 30) = Finite r"
    "30 \<le> r" "r \<le> 90"
    using scaled_draw [OF u(3), of 60 30] by auto
  obtain c where c:
    "numberAdd (numberMultiply (Finite (forConfidence d)) (Finite 20)) (Finite 80) = Finite c"
    "80 \<le> c" "c \<le> 100"
    using scaled_draw [OF u(4), of 20 80] by auto
  have "yield (mockResult d fd) = toFixed 2 y"
    "temperature (weather (mockResult d fd)) = toFixed 1 t"
    "rainfall (weather (mockResult d fd)) = toFixed 0 r"
    "confidence (mockResult d fd) = toFixed 0 c"
    by (simp_all add: mockResult_def numberToFixed_def y(1) t(1) r(1) c(1)
        del: numberMultiply.simps numberAdd.simps)
  with y(2,3) t(2,3) r(2,3) c(2,3) show ?thesis
    by blast
qed

lemma mockResult_ranges:
  assumes "possibleDraws d"
  shows "inClosedRange 2 5 (yield (mockResult d fd))"
    and "inClosedRange 18 28 (temperature (weather (mockResult d fd)))"
    and "inClosedRange 30 90 (rainfall (weather (mockResult d fd)))"
    and "inClosedRange 80 100 (confidence (mockResult d fd))"
proof -
  obtain y t r c where v:
    "yield (mockResult d fd) = toFixed 2 y" "2 \<le> y" "y \<le> 5"
    "temperature (weather (mockResult d fd)) = toFixed 1 t" "18 \<le> t" "t \<le> 28"
    "rainfall (weather (mockResult d fd)) = toFixed 0 r" "30 \<le> r" "r \<le> 90"
    "confidence (mockResult d fd) = toFixed 0 c" "80 \<le> c" "c \<le> 100"
    using mockResult_values [OF assms, of fd] by blast
  have "inClosedRange (of_nat 200 / 10 ^ 2) (of_nat 500 / 10 ^ 2) (toFixed 2 y)"
    using v(2,3) by (intro toFixed_range) simp_all
  then show "inClosedRange 2 5 (yield (mockResult d fd))"
    by (simp add: v(1))
  have "inClosedRange (of_nat 180 / 10 ^ 1) (of_nat 280 / 10 ^ 1) (toFixed 1 t)"
    using v(5,6) by (intro toFixed_range) simp_all
  then show "inClosedRange 18 28 (temperature (weather (mockResult d fd)))"
    by (simp add: v(4))
  have "inClosedRange (of_nat 30 / 10 ^ 0) (of_nat 90 / 10 ^ 0) (toFixed 0 r)"
    using v(8,9) by (intro toFixed_range) simp_all
  then show "inClosedRange 30 90 (rainfall (weather (mockResult d fd)))"
    by (simp add: v(7))
  have "inClosedRange (of_nat 80 / 10 ^ 0) (of_nat 100 / 10 ^ 0) (toFixed 0 c)"
    using v(11,12) by (intro toFixed_range) simp_all
  then show "inClosedRange 80 100 (confidence (mockResult d fd))"
    by (simp add: v(10))
qed

lemma mockResult_shape:
  assumes "possibleDraws d"
  shows "fractionDigits (yield (mockResult d fd)) = Some 2"
    and "fractionDigits (temperature (weather (mockResult d fd))) = Some 1"
    and "fractionDigits (rainfall (weather (mockResult d fd))) = Some 0"
    and "fractionDigits (confidence (mockResult d fd)) = Some 0"
proof -
  obtain y t r c where v:
    "yield (mockResult d fd) = toFixed 2 y" "2 \<le> y"
    "temperature (weather (mockResult d fd)) = toFixed 1 t" "18 \<le> t"
    "rainfall (weather (mockResult d fd)) = toFixed 0 r" "30 \<le> r"
    "confidence (mockResult d fd) = toFixed 0 c" "80 \<le> c"
    using mockResult_values [OF assms, of fd] by blast
  show "fractionDigits (yield (mockResult d fd)) = Some 2"
    using v(2) by (simp add: v(1) toFixed_read)
  show "fractionDigits (temperature (weather (mockResult d fd))) = Some 1"
    using v(4) by (simp add: v(3) toFixed_read)
  show "fractionDigits (rainfall (weather (mockResult d fd))) = Some 0"
    using v(6) by (simp add: v(5) toFixed_read)
  show "fractionDigits (confidence (mockResult d fd)) = Some 0"
    using v(8) by (simp add: v(7) toFixed_read)
qed

text \<open>
  Claim C1, as amended. When the four required fields are not empty, the submission
  schedules exactly one timer, of 2000 ms, and calls nothing before it fires. Once the
  timers pending before it and this one have fired, \<^verbatim>\<open>onPrediction\<close> has been called
  exactly once more than without the submission, whatever random values are left, and no
  timer remains. For all random values in \<open>[0, 1)\<close> the strings of the result denote
  numbers in the closed intervals: yield in \<open>[2, 5]\<close>, temperature in \<open>[18, 28]\<close>, rainfall
  in \<open>[30, 90]\<close>, confidence in \<open>[80, 100]\<close>. The upper bounds are reached, because
  \<^verbatim>\<open>toFixed\<close> rounds to the nearest numeral.
\<close>

theorem submission_calls_once_within_closed_ranges:
  assumes "name (formData st) \<noteq> []" and "phone (formData st) \<noteq> []"
    and "location (formData st) \<noteq> []" and "crop (formData st) \<noteq> []"
    and "possibleDraws d" and "length ds = length (timers st)"
  shows "timers (handleSubmit st) = timers st @ [\<lparr>delay = 2000, captured = formData st\<rparr>] \<and>
         onPrediction (handleSubmit st) = onPrediction st \<and>
         onPrediction (runTimers (ds @ [d]) (handleSubmit st)) =
           onPrediction (runTimers ds st) @ [mockResult d (formData st)] \<and>
         onPrediction (runTimers (ds @ d # rest) (handleSubmit st)) =
           onPrediction (runTimers ds st) @ [mockResult d (formData st)] \<and>
         timers (runTimers (ds @ d # rest) (handleSubmit st)) = [] \<and>
         inClosedRange 2 5 (yield (mockResult d (formData st))) \<and>
         inClosedRange 18 28 (temperature (weather (mockResult d (formData st)))) \<and>
         inClosedRange 30 90 (rainfall (weather (mockResult d (formData st)))) \<and>
         inClosedRange 80 100 (confidence (mockResult d (formData st)))"
proof -
  have "timers (runTimers (ds @ d # rest) (handleSubmit st)) = []"
    using assms(6) by (simp add: runTimers_timers handleSubmit_accepted [OF assms(1-4)])
  then show ?thesis
    using accepted_calls [OF assms(1-4) assms(6)] accepted_calls_more [OF assms(1-4) assms(6)]
      mockResult_ranges [OF assms(5)]
    by (simp add: handleSubmit_accepted [OF assms(1-4)])
qed

theorem submission_calls_once_within_closed_ranges_witness:
  "possibleDraws midDraws \<and>
   timers (handleSubmit exampleForm) = [\<lparr>delay = 2000, captured = exampleFormData\<rparr>] \<and>
   onPrediction (handleSubmit exampleForm) = [] \<and>
   onPrediction (runTimers [midDraws] (handleSubmit exampleForm)) =
     [mockResult midDraws exampleFormData] \<and>
   onPrediction (runTimers [midDraws, nearOne, nearOne] (handleSubmit exampleForm)) =
     [mockResult midDraws exampleFormData] \<and>
   yield (mockResult midDraws exampleFormData) = ''3.50'' \<and>
   inClosedRange 2 5 (yield (mockResult midDraws exampleFormData)) \<and>
   inClosedRange 18 28 (temperature (weather (mockResult midDraws exampleFormData))) \<and>
   inClosedRange 30 90 (rainfall (weather (mockResult midDraws exampleFormData))) \<and>
   inClosedRange 80 100 (confidence (mockResult midDraws exampleFormData))"
proof -
  have fd: "formData exampleForm = exampleFormData" "timers exampleForm = []"
    "onPrediction exampleForm = []"
    by (simp_all add: exampleForm_def initialForm_def)
  have filled: "name (formData exampleForm) \<noteq> []" "phone (formData exampleForm) \<noteq> []"
    "location (formData exampleForm) \<noteq> []" "crop (formData exampleForm) \<noteq> []"
    by (simp_all add: fd exampleFormData_def)
  have draws: "possibleDraws midDraws"
    by (simp add: possibleDraws_def midDraws_def unitInterval_def)
  have len: "length ([] :: Draws list) = length (timers exampleForm)"
    by (simp add: fd)
  have y: "yield (mockResult midDraws exampleFormData) = ''3.50''"
    by code_simp
  show ?thesis
    using submission_calls_once_within_closed_ranges [OF filled draws len, of "[nearOne, nearOne]"]
      draws y
    by (simp add: fd del: runTimers.simps(2))
qed

text \<open>
  The half-open intervals fail: with every random value equal to \<open>1023/1024\<close> the result
  holds the yield \<^verbatim>\<open>"5.00"\<close>, the temperature \<^verbatim>\<open>"28.0"\<close>, the rainfall \<^verbatim>\<open>"90"\<close>
  and the confidence \<^verbatim>\<open>"100"\<close>.
\<close>

theorem rounded_values_reach_upper_bounds:
  "possibleDraws nearOne \<and>
   yield (last (onPrediction (runTimers [nearOne] (handleSubmit exampleForm)))) = ''5.00'' \<and>
   \<not> inHalfOpenRange 2 5
       (yield (last (onPrediction (runTimers [nearOne] (handleSubmit exampleForm))))) \<and>
   \<not> inHalfOpenRange 18 28
       (temperature (weather (last (onPrediction (runTimers [nearOne] (handleSubmit exampleForm)))))) \<and>
   \<not> inHalfOpenRange 30 90
       (rainfall (weather (last (onPrediction (runTimers [nearOne] (handleSubmit exampleForm)))))) \<and>
   \<not> inHalfOpenRange 80 100
       (confidence (last (onPrediction (runTimers [nearOne] (handleSubmit exampleForm)))))"
  by code_simp

text \<open>
  Claim C2. When one of name, phone, location and crop is empty, the submission makes no
  call of \<^verbatim>\<open>onPrediction\<close>, neither at once nor when timers fire later (the calls are
  those made without the submission), it schedules no timer, shows the notification
  ``Missing Information'', leaves the field record as it was and ends with
  \<^verbatim>\<open>isLoading\<close> false.
\<close>

theorem incomplete_submission_is_rejected:
  assumes "name (formData st) = [] \<or> phone (formData st) = [] \<or>
           location (formData st) = [] \<or> crop (formData st) = []"
  shows "onPrediction (runTimers ds (handleSubmit st)) = onPrediction (runTimers ds st) \<and>
         onPrediction (handleSubmit st) = onPrediction st \<and>
         timers (handleSubmit st) = timers st \<and>
         toasts (handleSubmit st) = toasts st @ [missingInformation] \<and>
         formData (handleSubmit st) = formData st \<and>
         isLoading (handleSubmit st) = False"
  by (simp add: handleSubmit_rejected [OF assms] runTimers_calls)

theorem incomplete_submission_is_rejected_witness:
  "crop (formData partialForm) = [] \<and>
   onPrediction (runTimers [midDraws, nearOne] (handleSubmit partialForm)) = [] \<and>
   toasts (handleSubmit partialForm) = [missingInformation] \<and>
   formData (handleSubmit partialForm) = formData partialForm \<and>
   isLoading (handleSubmit partialForm) = False"
proof -
  have empty: "crop (formData partialForm) = []"
    by (simp add: partialForm_def)
  then have "name (formData partialForm) = [] \<or> phone (formData partialForm) = [] \<or>
             location (formData partialForm) = [] \<or> crop (formData partialForm) = []"
    by simp
  from incomplete_submission_is_rejected [OF this, of "[midDraws, nearOne]"] empty
  show ?thesis
    by (simp add: partialForm_def initialForm_def)
qed

text \<open>
  Claim C9. The result given to \<^verbatim>\<open>onPrediction\<close> holds decimal strings: the yield with
  two digits after the point, the temperature with one, the rainfall and the confidence
  with none; its \<^verbatim>\<open>farmData\<close> is the form record of the submission, whatever its
  optional fields hold.
\<close>

theorem result_holds_decimal_strings_and_form:
  assumes "name (formData st) \<noteq> []" and "phone (formData st) \<noteq> []"
    and "location (formData st) \<noteq> []" and "crop (formData st) \<noteq> []"
    and "possibleDraws d" and "length ds = length (timers st)"
  shows "(let r = last (onPrediction (runTimers (ds @ [d]) (handleSubmit st)))
          in fractionDigits (yield r) = Some 2 \<and>
             fractionDigits (temperature (weather r)) = Some 1 \<and>
             fractionDigits (rainfall (weather r)) = Some 0 \<and>
             fractionDigits (confidence r) = Some 0 \<and>
             farmData r = formData st)"
proof -
  have "last (onPrediction (runTimers (ds @ [d]) (handleSubmit st))) = mockResult d (formData st)"
    using accepted_calls [OF assms(1-4) assms(6)] by simp
  moreover have "farmData (mockResult d (formData st)) = formData st"
    by (simp add: mockResult_def)
  ultimately show ?thesis
    using mockResult_shape [OF assms(5)] by (simp add: Let_def)
qed

theorem result_holds_decimal_strings_and_form_witness:
  "possibleDraws midDraws \<and>
   yield (last (onPrediction (runTimers [midDraws] (handleSubmit exampleForm)))) = ''3.50'' \<and>
   temperature (weather (last (onPrediction (runTimers [midDraws] (handleSubmit exampleForm)))))
     = ''20.5'' \<and>
   rainfall (weather (last (onPrediction (runTimers [midDraws] (handleSubmit exampleForm)))))
     = ''30'' \<and>
   confidence (last (onPrediction (runTimers [midDraws] (handleSubmit exampleForm)))) = ''95'' \<and>
   fractionDigits (yield (last (onPrediction (runTimers [midDraws] (handleSubmit exampleForm)))))
     = Some 2 \<and>
   farmData (last (onPrediction (runTimers [midDraws] (handleSubmit exampleForm))))
     = exampleFormData \<and>
   area (farmData (last (onPrediction (runTimers [midDraws] (handleSubmit exampleForm))))) = [] \<and>
   soilMoisture (farmData (last (onPrediction (runTimers [midDraws] (handleSubmit exampleForm)))))
     = ''abc''"
proof -
  have fd: "formData exampleForm = exampleFormData" "timers exampleForm = []"
    by (simp_all add: exampleForm_def initialForm_def)
  have filled: "name (formData exampleForm) \<noteq> []" "phone (formData exampleForm) \<noteq> []"
    "location (formData exampleForm) \<noteq> []" "crop (formData exampleForm) \<noteq> []"
    by (simp_all add: fd exampleFormData_def)
  have draws: "possibleDraws midDraws"
    by (simp add: possibleDraws_def midDraws_def unitInterval_def)
  have len: "length ([] :: Draws list) = length (timers exampleForm)"
    by (simp add: fd)
  have texts:
    "yield (last (onPrediction (runTimers [midDraws] (handleSubmit exampleForm)))) = ''3.50''"
    "temperature (weather (last (onPrediction (runTimers [midDraws] (handleSubmit exampleForm)))))
       = ''20.5''"
    "rainfall (weather (last (onPrediction (runTimers [midDraws] (handleSubmit exampleForm)))))
       = ''30''"
    "confidence (last (onPrediction (runTimers [midDraws] (handleSubmit exampleForm)))) = ''95''"
    by code_simp+
  have opt: "area exampleFormData = []" "soilMoisture exampleFormData = ''abc''"
    by (simp_all add: exampleFormData_def)
  show ?thesis
    using result_holds_decimal_strings_and_form [OF filled draws len] draws texts opt
    by (simp add: Let_def fd)
qed

text \<open>
  Claim C10. Validation rejects the empty string only: when name, phone, location and crop
  are not empty (blanks included), no notification is shown, the timer of 2000 ms is
  scheduled and \<^verbatim>\<open>onPrediction\<close> is called when it fires.
\<close>

theorem nonempty_fields_pass_validation:
  assumes "name (formData st) \<noteq> []" and "phone (formData st) \<noteq> []"
    and "location (formData st) \<noteq> []" and "crop (formData st) \<noteq> []"
    and "length ds = length (timers st)"
  shows "toasts (handleSubmit st) = toasts st \<and>
         timers (handleSubmit st) = timers st @ [\<lparr>delay = 2000, captured = formData st\<rparr>] \<and>
         onPrediction (runTimers (ds @ [d]) (handleSubmit st)) =
           onPrediction (runTimers ds st) @ [mockResult d (formData st)]"
  using accepted_calls [OF assms] by (simp add: handleSubmit_accepted [OF assms(1-4)])

theorem nonempty_fields_pass_validation_witness:
  "name (formData blankForm) = '' '' \<and> phone (formData blankForm) = ''  '' \<and>
   location (formData blankForm) = '' '' \<and> crop (formData blankForm) = '' '' \<and>
   toasts (handleSubmit blankForm) = [] \<and>
   timers (handleSubmit blankForm) = [\<lparr>delay = 2000, captured = blankFormData\<rparr>] \<and>
   onPrediction (runTimers [midDraws] (handleSubmit blankForm)) =
     [mockResult midDraws blankFormData]"
proof -
  have fd: "formData blankForm = blankFormData" "timers blankForm = []" "toasts blankForm = []"
    "onPrediction blankForm = []"
    by (simp_all add: blankForm_def initialForm_def)
  have filled: "name (formData blankForm) \<noteq> []" "phone (formData blankForm) \<noteq> []"
    "location (formData blankForm) \<noteq> []" "crop (formData blankForm) \<noteq> []"
    by (simp_all add: fd blankFormData_def)
  have len: "length ([] :: Draws list) = length (timers blankForm)"
    by (simp add: fd)
  show ?thesis
    using nonempty_fields_pass_validation [OF filled len, of midDraws]
    by (simp add: fd blankFormData_def del: runTimers.simps(2))
qed

section \<open>Properties of the dashboard\<close>

subsection \<open>Total area and average yield\<close>

lemma totalArea_snoc: "totalArea (fs @ [f]) = numberAdd (totalArea fs) (area_hectares f)"
  by (simp add: totalArea_def reduce_def)

lemma reduce_values:
  "reduce (\<lambda>sum x. numberAdd sum (g x)) a xs = foldl numberAdd a (map g xs)"
  unfolding reduce_def by (induction xs arbitrary: a) simp_all

text \<open>When every sum of the first \<open>k\<close> values is a double, no addition rounds.\<close>

lemma exact_sums:
  assumes "list_all (\<lambda>k. isDouble (sum_list (take k xs))) [0..<Suc (length xs)]"
  shows "foldl numberAdd (Finite 0) (map Finite xs) = Finite (sum_list xs)"
  using assms
proof (induction xs rule: rev_induct)
  case Nil
  show ?case by simp
next
  case (snoc x xs)
  have all: "isDouble (sum_list (take k (xs @ [x])))" if "k \<le> Suc (length xs)" for k
  proof -
    from that have "k \<in> set [0..<Suc (length (xs @ [x]))]"
      by (simp only: set_upt atLeastLessThan_iff length_append list.size) simp
    with snoc.prems show ?thesis
      unfolding list_all_iff by blast
  qed
  have "list_all (\<lambda>k. isDouble (sum_list (take k xs))) [0..<Suc (length xs)]"
    unfolding list_all_iff
  proof
    fix k
    assume "k \<in> set [0..<Suc (length xs)]"
    then have "k \<le> length xs" by auto
    then show "isDouble (sum_list (take k xs))"
      using all [of k] by simp
  qed
  then have "foldl numberAdd (Finite 0) (map Finite xs) = Finite (sum_list xs)"
    by (rule snoc.IH)
  moreover have "isDouble (sum_list xs + x)"
    using all [of "Suc (length xs)"] by simp
  ultimately show ?case
    by (simp add: isDouble_def)
qed

text \<open>
  Claim C3, as amended. The total area is the result of adding the areas one after the
  other, starting from 0, each addition rounded to a double: it is 0 for the empty list,
  and a farm more adds its area to the total of the farms before it. Whenever no addition
  rounds, it is the exact sum of the areas.
\<close>

theorem totalArea_is_rounded_sum_of_areas:
  "totalArea [] = Finite 0 \<and>
   totalArea (fs @ [f]) = numberAdd (totalArea fs) (area_hectares f) \<and>
   (map area_hectares fs = map Finite xs \<and>
    list_all (\<lambda>k. isDouble (sum_list (take k xs))) [0..<Suc (length xs)] \<longrightarrow>
      totalArea fs = Finite (sum_list xs))"
proof (intro conjI impI)
  show "totalArea [] = Finite 0"
    by (simp add: totalArea_def reduce_def)
  show "totalArea (fs @ [f]) = numberAdd (totalArea fs) (area_hectares f)"
    by (rule totalArea_snoc)
  assume "map area_hectares fs = map Finite xs \<and>
          list_all (\<lambda>k. isDouble (sum_list (take k xs))) [0..<Suc (length xs)]"
  then show "totalArea fs = Finite (sum_list xs)"
    by (simp add: totalArea_def reduce_values exact_sums)
qed

theorem totalArea_is_rounded_sum_of_areas_witness:
  "list_all (\<lambda>k. isDouble (sum_list (take k [5 / 2, 3 / 2]))) [0..<Suc (length [5 / 2, 3 / 2 :: rat])] \<and>
   totalArea [exampleFarm 3 (Finite (5 / 2)), exampleFarm 7 (Finite (3 / 2))] = Finite 4 \<and>
   totalArea [] = Finite 0"
proof -
  have exact:
    "list_all (\<lambda>k. isDouble (sum_list (take k [5 / 2, 3 / 2]))) [0..<Suc (length [5 / 2, 3 / 2 :: rat])]"
    by code_simp
  have areas:
    "map area_hectares [exampleFarm 3 (Finite (5 / 2)), exampleFarm 7 (Finite (3 / 2))]
       = map Finite [5 / 2, 3 / 2]"
    by (simp add: exampleFarm_def)
  show ?thesis
    using totalArea_is_rounded_sum_of_areas
      [of "[exampleFarm 3 (Finite (5 / 2)), exampleFarm 7 (Finite (3 / 2))]" _ "[5 / 2, 3 / 2]"]
      exact areas
    by simp
qed

text \<open>
  The total area is not the exact sum: for the doubles nearest to 0.1 and 0.2 it is
  0.30000000000000004, which is above their sum.
\<close>

theorem total_of_tenth_and_fifth_is_rounded:
  "roundToDouble (1 / 10) = Finite tenth \<and> roundToDouble (2 / 10) = Finite fifth \<and>
   totalArea [exampleFarm 1 (Finite tenth), exampleFarm 2 (Finite fifth)]
     = Finite (1351079888211149 / 4503599627370496) \<and>
   tenth + fifth < 1351079888211149 / 4503599627370496"
  by code_simp

text \<open>
  Claim C4, as amended. The average yield is 0 for the empty list, and otherwise the
  quotient, rounded to a double, of the yields added one after the other from 0 (each
  addition rounded) by the number of predictions. Whenever neither the additions nor the
  division round, it is the exact mean of the yields.
\<close>

theorem avgYield_is_rounded_mean_of_yields:
  "avgYield [] = Finite 0 \<and>
   (ps \<noteq> [] \<longrightarrow>
      avgYield ps =
        numberDivide (foldl numberAdd (Finite 0) (map yield_per_hectare ps))
          (Finite (of_nat (length ps)))) \<and>
   (ps \<noteq> [] \<and> map yield_per_hectare ps = map Finite xs \<and>
    list_all (\<lambda>k. isDouble (sum_list (take k xs))) [0..<Suc (length xs)] \<and>
    isDouble (sum_list xs / of_nat (length xs)) \<longrightarrow>
      avgYield ps = Finite (sum_list xs / of_nat (length xs)))"
proof (intro conjI impI)
  show "avgYield [] = Finite 0"
    by (simp add: avgYield_def)
  show "avgYield ps =
        numberDivide (foldl numberAdd (Finite 0) (map yield_per_hectare ps))
          (Finite (of_nat (length ps)))" if "ps \<noteq> []"
    using that by (simp add: avgYield_def reduce_values)
  assume a: "ps \<noteq> [] \<and> map yield_per_hectare ps = map Finite xs \<and>
    list_all (\<lambda>k. isDouble (sum_list (take k xs))) [0..<Suc (length xs)] \<and>
    isDouble (sum_list xs / of_nat (length xs))"
  then have len: "length ps = length xs"
    by (metis length_map)
  with a have "xs \<noteq> []" by auto
  then have pos: "(of_nat (length xs) :: rat) \<noteq> 0" by simp
  have "foldl numberAdd (Finite 0) (map yield_per_hectare ps) = Finite (sum_list xs)"
    using a by (simp add: exact_sums)
  then show "avgYield ps = Finite (sum_list xs / of_nat (length xs))"
    using a pos by (simp add: avgYield_def reduce_values len isDouble_def)
qed

theorem avgYield_is_rounded_mean_of_yields_witness:
  "list_all (\<lambda>k. isDouble (sum_list (take k [1 / 2, 1, 3]))) [0..<Suc (length [1 / 2, 1, 3 :: rat])] \<and>
   isDouble (sum_list [1 / 2, 1, 3] / of_nat (length [1 / 2, 1, 3 :: rat])) \<and>
   avgYield (map examplePrediction [1, 2, 6]) = Finite (3 / 2) \<and>
   avgYield [] = Finite 0"
proof -
  have exact:
    "list_all (\<lambda>k. isDouble (sum_list (take k [1 / 2, 1, 3]))) [0..<Suc (length [1 / 2, 1, 3 :: rat])]"
    "isDouble (sum_list [1 / 2, 1, 3] / of_nat (length [1 / 2, 1, 3 :: rat]))"
    by code_simp+
  have yields:
    "map yield_per_hectare (map examplePrediction [1, 2, 6]) = map Finite [1 / 2, 1, 3]"
    by (simp add: examplePrediction_def)
  have some: "map examplePrediction [1, 2, 6] \<noteq> []"
    by simp
  have "avgYield (map examplePrediction [1, 2, 6])
          = Finite (sum_list [1 / 2, 1, 3] / of_nat (length [1 / 2, 1, 3 :: rat]))"
    using avgYield_is_rounded_mean_of_yields
      [of "map examplePrediction [1, 2, 6]" "[1 / 2, 1, 3]", THEN conjunct2, THEN conjunct2]
      some exact yields
    by blast
  moreover have "sum_list [1 / 2, 1, 3] / of_nat (length [1 / 2, 1, 3 :: rat]) = (3 / 2 :: rat)"
    by simp
  moreover have "avgYield [] = Finite 0"
    using avgYield_is_rounded_mean_of_yields [of "[]" "[]"] by blast
  ultimately show ?thesis
    using exact by (simp only: simp_thms)
qed

text \<open>
  The average yield is not the exact mean: for the doubles nearest to 0.1, 0.2 and 0.3 it
  is 0.20000000000000004, above their mean, whose nearest double is the one of 0.2.
  Without the guard the average of no prediction would be \<^verbatim>\<open>NaN\<close>.
\<close>

theorem average_of_three_tenths_is_rounded:
  "roundToDouble (3 / 10) = Finite threeTenths \<and>
   avgYield
     [examplePrediction 1\<lparr>yield_per_hectare := Finite tenth\<rparr>,
      examplePrediction 2\<lparr>yield_per_hectare := Finite fifth\<rparr>,
      examplePrediction 3\<lparr>yield_per_hectare := Finite threeTenths\<rparr>]
     = Finite (7205759403792795 / 36028797018963968) \<and>
   (tenth + fifth + threeTenths) / 3 < 7205759403792795 / 36028797018963968 \<and>
   roundToDouble ((tenth + fifth + threeTenths) / 3) = Finite fifth \<and>
   numberDivide (foldl numberAdd (Finite 0) (map yield_per_hectare []))
     (Finite (of_nat (length ([] :: Prediction list)))) = NaN"
  by code_simp

subsection \<open>The chart series\<close>

text \<open>
  Claim C5. For predictions that arrive newest first, the chart series has \<open>min 7 n\<close>
  entries; its dates, yields and confidences are the formatted creation dates, the
  yields and the confidence scores of the first seven predictions in reverse, that is
  from the oldest to the newest; no prediction left out is more recent than one of them.
\<close>

theorem chartData_is_recent_seven_oldest_first:
  assumes "sorted_wrt (\<lambda>p q. instant (created_at q) \<le> instant (created_at p)) ps"
  shows "length (chartData toLocaleDateString ps) = min 7 (length ps) \<and>
         map date (chartData toLocaleDateString ps)
           = map (\<lambda>p. toLocaleDateString (created_at p)) (rev (take 7 ps)) \<and>
         map ChartEntry.yield (chartData toLocaleDateString ps)
           = map yield_per_hectare (rev (take 7 ps)) \<and>
         map ChartEntry.confidence (chartData toLocaleDateString ps)
           = map confidence_score (rev (take 7 ps)) \<and>
         sorted_wrt (\<lambda>p q. instant (created_at p) \<le> instant (created_at q)) (rev (take 7 ps)) \<and>
         (\<forall>p \<in> set (take 7 ps). \<forall>q \<in> set (drop 7 ps).
            instant (created_at q) \<le> instant (created_at p))"
proof -
  have "sorted_wrt (\<lambda>p q. instant (created_at q) \<le> instant (created_at p)) (take 7 ps @ drop 7 ps)"
    using assms by simp
  then have "sorted_wrt (\<lambda>p q. instant (created_at q) \<le> instant (created_at p)) (take 7 ps)"
    and "\<forall>p \<in> set (take 7 ps). \<forall>q \<in> set (drop 7 ps).
           instant (created_at q) \<le> instant (created_at p)"
    unfolding sorted_wrt_append by simp_all
  then show ?thesis
    by (simp add: chartData_def chartEntry_def slice_def rev_map sorted_wrt_rev min_def comp_def)
qed

theorem chartData_is_recent_seven_oldest_first_witness:
  "sorted_wrt (\<lambda>p q. exampleInstant (created_at q) \<le> exampleInstant (created_at p))
     (map examplePrediction [9, 8, 7, 6, 5, 4, 3, 2, 1]) \<and>
   length (chartData id (map examplePrediction [9, 8, 7, 6, 5, 4, 3, 2, 1])) = 7 \<and>
   map date (chartData id (map examplePrediction [9, 8, 7, 6, 5, 4, 3, 2, 1]))
     = [''2024-03-03'', ''2024-03-04'', ''2024-03-05'', ''2024-03-06'', ''2024-03-07'',
        ''2024-03-08'', ''2024-03-09''] \<and>
   map ChartEntry.yield (chartData id (map examplePrediction [9, 8, 7, 6, 5, 4, 3, 2, 1]))
     = map Finite [3 / 2, 2, 5 / 2, 3, 7 / 2, 4, 9 / 2] \<and>
   map ChartEntry.confidence (chartData id (map examplePrediction [9, 8, 7, 6, 5, 4, 3, 2, 1]))
     = map Finite [83, 84, 85, 86, 87, 88, 89]"
proof -
  have newest_first:
    "sorted_wrt (\<lambda>p q. exampleInstant (created_at q) \<le> exampleInstant (created_at p))
       (map examplePrediction [9, 8, 7, 6, 5, 4, 3, 2, 1])"
    by code_simp
  have dates:
    "map (\<lambda>p. id (created_at p)) (rev (take 7 (map examplePrediction [9, 8, 7, 6, 5, 4, 3, 2, 1])))
       = [''2024-03-03'', ''2024-03-04'', ''2024-03-05'', ''2024-03-06'', ''2024-03-07'',
          ''2024-03-08'', ''2024-03-09'']"
    by code_simp
  have yields:
    "map yield_per_hectare (rev (take 7 (map examplePrediction [9, 8, 7, 6, 5, 4, 3, 2, 1])))
       = map Finite [3 / 2, 2, 5 / 2, 3, 7 / 2, 4, 9 / 2]"
    by code_simp
  have confidences:
    "map confidence_score (rev (take 7 (map examplePrediction [9, 8, 7, 6, 5, 4, 3, 2, 1])))
       = map Finite [83, 84, 85, 86, 87, 88, 89]"
    by code_simp
  have "length (map examplePrediction [9, 8, 7, 6, 5, 4, 3, 2, 1 :: nat]) = 9"
    by simp
  then show ?thesis
    using chartData_is_recent_seven_oldest_first [OF newest_first, of id] newest_first
    by (simp only: dates yields confidences) simp
qed

subsection \<open>The page\<close>

lemma example_total: "numberAdd (numberAdd (Finite 0) (Finite (5 / 2))) (Finite (3 / 2)) = Finite 4"
  by code_simp

lemma toFixed_four: "toFixed (Suc 0) 4 = ''4.0''"
  by code_simp

text \<open>
  Claim C8. With farms of 2.5 and 1.5 hectares the page shows the total area
  \<^verbatim>\<open>"4.0 ha"\<close>.
\<close>

theorem total_area_of_example_farms_is_shown:
  "(case render toLocaleDateString
           (st\<lparr>farms := [f1\<lparr>area_hectares := Finite (5 / 2)\<rparr>, f2\<lparr>area_hectares := Finite (3 / 2)\<rparr>],
               loading := False\<rparr>) of
      Spinner \<Rightarrow> False
    | Content page \<Rightarrow> totalAreaText page = ''4.0 ha'')"
proof -
  have "totalArea [f1\<lparr>area_hectares := Finite (5 / 2)\<rparr>, f2\<lparr>area_hectares := Finite (3 / 2)\<rparr>]
          = Finite 4"
    by (simp add: totalArea_def reduce_def example_total del: numberAdd.simps)
  then show ?thesis
    by (simp add: render_def numberToFixed_def toFixed_four)
qed

subsection \<open>The queries of the load\<close>

lemma sort_key_newest_first: "sorted_wrt (\<lambda>a b. f b \<le> f a) (rev (sort_key f xs))"
proof -
  have "sorted (map f (sort_key f xs))"
    by (rule sorted_sort_key)
  then have "sorted_wrt (\<lambda>a b. f a \<le> f b) (sort_key f xs)"
    by (simp add: sorted_map)
  then show ?thesis
    by (simp add: sorted_wrt_rev)
qed

lemma farmKey_created_at:
  "farmKey instant ''created_at'' = (\<lambda>f. instant (Farm.created_at f))"
  by (rule ext) (simp add: farmKey_def)

lemma predictionKey_created_at:
  "predictionKey instant ''created_at'' = (\<lambda>p. instant (created_at p))"
  by (rule ext) (simp add: predictionKey_def)


lemma farms_selected:
  "selectRows (farmKey instant) (farmRows db ''farms'')
     \<lparr>table = ''farms'', columns = ''*'', ordering = Some (''created_at'', False),
      rowLimit = None, singleRow = False\<rparr> =
   rev (sort_key (\<lambda>f. instant (Farm.created_at f)) (farmsTable db))"
  by (simp add: selectRows_def farmRows_def farmKey_created_at)

lemma predictions_selected:
  "selectRows (predictionKey instant) (predictionRows db ''predictions'')
     \<lparr>table = ''predictions'', columns = ''*'', ordering = Some (''created_at'', False),
      rowLimit = Some 10, singleRow = False\<rparr> =
   take 10 (rev (sort_key (\<lambda>p. instant (created_at p)) (predictionsTable db)))"
  by (simp add: selectRows_def predictionRows_def predictionKey_created_at)

lemma profiles_selected:
  "selectRows profileKey (profileRows db ''profiles'')
     \<lparr>table = ''profiles'', columns = ''*'', ordering = None, rowLimit = None,
      singleRow = True\<rparr> =
   profilesTable db"
  by (simp add: selectRows_def profileRows_def)

lemma queries_built:
  "farmsQuery =
     \<lparr>table = ''farms'', columns = ''*'', ordering = Some (''created_at'', False),
      rowLimit = None, singleRow = False\<rparr>"
  "predictionsQuery =
     \<lparr>table = ''predictions'', columns = ''*'', ordering = Some (''created_at'', False),
      rowLimit = Some 10, singleRow = False\<rparr>"
  "profileQuery =
     \<lparr>table = ''profiles'', columns = ''*'', ordering = None, rowLimit = None,
      singleRow = True\<rparr>"
  by (simp_all add: farmsQuery_def predictionsQuery_def profileQuery_def order_def limit_def
      single_def select_def from_table_def)

text \<open>
  Claim C6. For a signed-in user the component sends exactly three queries and only then
  waits, for the three results together: all columns of the farms ordered by
  \<^verbatim>\<open>created_at\<close> descending, without a limit; all columns of the predictions so ordered,
  with the limit 10; and all columns of the profiles as a single row. The service answers
  the first with all farms, newest first; the second with the first ten of the predictions
  arranged newest first; the third with the profile when the table holds exactly one, and
  with an error otherwise.
\<close>

theorem dashboard_load_issues_three_queries:
  "(let farmsQ =
          \<lparr>table = ''farms'', columns = ''*'', ordering = Some (''created_at'', False),
           rowLimit = None, singleRow = False\<rparr>;
        predictionsQ =
          \<lparr>table = ''predictions'', columns = ''*'', ordering = Some (''created_at'', False),
           rowLimit = Some 10, singleRow = False\<rparr>;
        profileQ =
          \<lparr>table = ''profiles'', columns = ''*'', ordering = None, rowLimit = None,
           singleRow = True\<rparr>;
        allFarms = rev (sort_key (\<lambda>f. instant (Farm.created_at f)) (farmsTable db));
        allPredictions = rev (sort_key (\<lambda>p. instant (created_at p)) (predictionsTable db))
    in onMount (Some user) = Run [Send farmsQ, Send predictionsQ, Send profileQ, AwaitAll] \<and>
       execute (farmKey instant) (farmRows db (table farmsQ)) farmsQ = Inr allFarms \<and>
       mset allFarms = mset (farmsTable db) \<and>
       sorted_wrt (\<lambda>f g. instant (Farm.created_at g) \<le> instant (Farm.created_at f)) allFarms \<and>
       execute (predictionKey instant) (predictionRows db (table predictionsQ)) predictionsQ
         = Inr (take 10 allPredictions) \<and>
       mset allPredictions = mset (predictionsTable db) \<and>
       sorted_wrt (\<lambda>p q. instant (created_at q) \<le> instant (created_at p)) allPredictions \<and>
       length (take 10 allPredictions) = min 10 (length (predictionsTable db)) \<and>
       execute profileKey (profileRows db (table profileQ)) profileQ
         = (case profilesTable db of [p] \<Rightarrow> Inr [p] | _ \<Rightarrow> Inl ''PGRST116'') \<and>
       answerSingle profileKey (profileRows db (table profileQ)) profileQ
         = (case profilesTable db of
              [p] \<Rightarrow> \<lparr>data = Some p, error = None\<rparr>
            | _ \<Rightarrow> \<lparr>data = None, error = Some ''PGRST116''\<rparr>))"
proof -
  have "onMount (Some user) =
        Run [Send
              \<lparr>table = ''farms'', columns = ''*'', ordering = Some (''created_at'', False),
               rowLimit = None, singleRow = False\<rparr>,
             Send
              \<lparr>table = ''predictions'', columns = ''*'', ordering = Some (''created_at'', False),
               rowLimit = Some 10, singleRow = False\<rparr>,
             Send
              \<lparr>table = ''profiles'', columns = ''*'', ordering = None, rowLimit = None,
               singleRow = True\<rparr>,
             AwaitAll]"
    by (simp add: onMount_def fetchSteps_def dashboardQueries_def queries_built)
  then show ?thesis
    by (simp add: Let_def execute_def answerSingle_def farms_selected predictions_selected
        profiles_selected sort_key_newest_first min_def split: list.splits)
qed

theorem dashboard_load_issues_three_queries_witness:
  "onMount (Some ()) = Run (map Send [farmsQuery, predictionsQuery, profileQuery] @ [AwaitAll]) \<and>
   map_sum id (map Farm.id') (execute (farmKey exampleInstant) (farmRows exampleDatabase ''farms'')
      farmsQuery)
     = Inr [''7'', ''3''] \<and>
   map_sum id (map id')
     (execute (predictionKey exampleInstant) (predictionRows exampleDatabase ''predictions'')
        predictionsQuery)
     = Inr [''12'', ''11'', ''10'', ''9'', ''8'', ''7'', ''6'', ''5'', ''4'', ''3''] \<and>
   answerSingle profileKey (profileRows exampleDatabase ''profiles'') profileQuery
     = \<lparr>data = Some exampleProfile, error = None\<rparr>"
proof -
  have farmIds:
    "map Farm.id'
       (rev (sort_key (\<lambda>f. exampleInstant (Farm.created_at f)) (farmsTable exampleDatabase)))
       = [''7'', ''3'']"
    by code_simp
  have predictionIds:
    "map id'
       (take 10
          (rev (sort_key (\<lambda>p. exampleInstant (created_at p)) (predictionsTable exampleDatabase))))
       = [''12'', ''11'', ''10'', ''9'', ''8'', ''7'', ''6'', ''5'', ''4'', ''3'']"
    by code_simp
  have one: "profilesTable exampleDatabase = [exampleProfile]"
    by (simp add: exampleDatabase_def)
  show ?thesis
    using dashboard_load_issues_three_queries
      [where user = "()" and instant = exampleInstant and db = exampleDatabase]
      farmIds predictionIds
    by (simp add: Let_def one queries_built)
qed

subsection \<open>The fetch\<close>

lemma fetch_rejected:
  assumes "promiseAll p1 p2 p3 = Rejected e"
  shows "fetchDashboardData p1 p2 p3 st =
         st\<lparr>console := console st @ [(''Error fetching dashboard data:'', e)], loading := False\<rparr>"
  using assms by (simp add: fetchDashboardData_def)

lemma promiseAll_rejects:
  assumes "(\<exists>e. p1 = Rejected e) \<or> (\<exists>e. p2 = Rejected e) \<or> (\<exists>e. p3 = Rejected e)"
  shows "\<exists>e. (p1 = Rejected e \<or> p2 = Rejected e \<or> p3 = Rejected e) \<and>
             promiseAll p1 p2 p3 = Rejected e"
  using assms by (cases p1; cases p2; cases p3) (auto simp: promiseAll_def)

lemma fetch_fulfilled:
  "fetchDashboardData (Fulfilled r1) (Fulfilled r2) (Fulfilled r3) st =
   st\<lparr>farms := (case data r1 of None \<Rightarrow> farms st | Some v \<Rightarrow> v),
      predictions := (case data r2 of None \<Rightarrow> predictions st | Some v \<Rightarrow> v),
      profile := (case data r3 of None \<Rightarrow> profile st | Some v \<Rightarrow> Some v),
      loading := False\<rparr>"
  by (simp add: fetchDashboardData_def promiseAll_def split: option.splits)

text \<open>The state after a fetch that the service answers from a database.\<close>

lemma loadFrom_state:
  "loadFrom instant db st =
   st\<lparr>farms := rev (sort_key (\<lambda>f. instant (Farm.created_at f)) (farmsTable db)),
      predictions := take 10 (rev (sort_key (\<lambda>p. instant (created_at p)) (predictionsTable db))),
      profile := (case profilesTable db of [p] \<Rightarrow> Some p | _ \<Rightarrow> profile st),
      loading := False\<rparr>"
  by (simp add: loadFrom_def fetch_fulfilled answerRows_def answerSingle_def execute_def
      queries_built farms_selected predictions_selected profiles_selected split: list.splits)

lemma loading_after_fetch: "loading (fetchDashboardData p1 p2 p3 st) = False"
  by (simp add: fetchDashboardData_def)

lemma render_after_fetch:
  assumes "loading st = False"
  shows "(case render toLocaleDateString st of
            Spinner \<Rightarrow> False
          | Content page \<Rightarrow>
              farmsNotice page =
                (if farms st = []
                 then Some ''No farms yet. Create your first prediction to get started!''
                 else None) \<and>
              predictionsNotice page =
                (if predictions st = []
                 then Some ''No predictions yet. Start by creating your first yield prediction!''
                 else None) \<and>
              trend page =
                (if predictions st = [] then NoData ''No prediction data available''
                 else LineChart (chartData toLocaleDateString (predictions st))) \<and>
              (profile st = None \<longrightarrow>
                 greeting page = ''Welcome back, Farmer'' \<and> plan page = ''Free Plan''))"
  using assms by (simp add: render_def chartData_def slice_def orElse_def)

text \<open>
  Claim C7, as amended. After every fetch \<^verbatim>\<open>loading\<close> is false. When one of the three
  promises is rejected, the reason of a rejected promise is logged once and the farms, the
  predictions and the profile all stay as they were. When the three promises are fulfilled,
  a slot whose result has no data stays as it was and the other slots take the data. In
  both cases the page is rendered, with the notices of the empty lists, the placeholder of
  the chart and the default greeting and plan where the state is empty.
\<close>

theorem fetch_failure_keeps_slots:
  "loading (fetchDashboardData p1 p2 p3 st) = False \<and>
   ((\<exists>e. p1 = Rejected e) \<or> (\<exists>e. p2 = Rejected e) \<or> (\<exists>e. p3 = Rejected e) \<longrightarrow>
      (\<exists>e. (p1 = Rejected e \<or> p2 = Rejected e \<or> p3 = Rejected e) \<and>
           fetchDashboardData p1 p2 p3 st =
             st\<lparr>console := console st @ [(''Error fetching dashboard data:'', e)],
                loading := False\<rparr>)) \<and>
   (\<forall>r1 r2 r3. p1 = Fulfilled r1 \<and> p2 = Fulfilled r2 \<and> p3 = Fulfilled r3 \<longrightarrow>
      farms (fetchDashboardData p1 p2 p3 st) =
        (case data r1 of None \<Rightarrow> farms st | Some v \<Rightarrow> v) \<and>
      predictions (fetchDashboardData p1 p2 p3 st) =
        (case data r2 of None \<Rightarrow> predictions st | Some v \<Rightarrow> v) \<and>
      profile (fetchDashboardData p1 p2 p3 st) =
        (case data r3 of None \<Rightarrow> profile st | Some v \<Rightarrow> Some v)) \<and>
   (case render toLocaleDateString (fetchDashboardData p1 p2 p3 st) of
      Spinner \<Rightarrow> False
    | Content page \<Rightarrow>
        farmsNotice page =
          (if farms (fetchDashboardData p1 p2 p3 st) = []
           then Some ''No farms yet. Create your first prediction to get started!''
           else None) \<and>
        predictionsNotice page =
          (if predictions (fetchDashboardData p1 p2 p3 st) = []
           then Some ''No predictions yet. Start by creating your first yield prediction!''
           else None) \<and>
        trend page =
          (if predictions (fetchDashboardData p1 p2 p3 st) = []
           then NoData ''No prediction data available''
           else LineChart
                  (chartData toLocaleDateString (predictions (fetchDashboardData p1 p2 p3 st)))) \<and>
        (profile (fetchDashboardData p1 p2 p3 st) = None \<longrightarrow>
           greeting page = ''Welcome back, Farmer'' \<and> plan page = ''Free Plan''))"
proof -
  have a: "loading (fetchDashboardData p1 p2 p3 st) = False"
    by (rule loading_after_fetch)
  have b: "(\<exists>e. p1 = Rejected e) \<or> (\<exists>e. p2 = Rejected e) \<or> (\<exists>e. p3 = Rejected e) \<longrightarrow>
      (\<exists>e. (p1 = Rejected e \<or> p2 = Rejected e \<or> p3 = Rejected e) \<and>
           fetchDashboardData p1 p2 p3 st =
             st\<lparr>console := console st @ [(''Error fetching dashboard data:'', e)],
                loading := False\<rparr>)"
  proof
    assume "(\<exists>e. p1 = Rejected e) \<or> (\<exists>e. p2 = Rejected e) \<or> (\<exists>e. p3 = Rejected e)"
    then obtain e where which: "p1 = Rejected e \<or> p2 = Rejected e \<or> p3 = Rejected e"
      and all: "promiseAll p1 p2 p3 = Rejected e"
      using promiseAll_rejects [of p1 p2 p3] by auto
    from all have "fetchDashboardData p1 p2 p3 st =
             st\<lparr>console := console st @ [(''Error fetching dashboard data:'', e)],
                loading := False\<rparr>"
      by (rule fetch_rejected)
    with which show "\<exists>e. (p1 = Rejected e \<or> p2 = Rejected e \<or> p3 = Rejected e) \<and>
           fetchDashboardData p1 p2 p3 st =
             st\<lparr>console := console st @ [(''Error fetching dashboard data:'', e)],
                loading := False\<rparr>"
      by (intro exI conjI)
  qed
  have c: "\<forall>r1 r2 r3. p1 = Fulfilled r1 \<and> p2 = Fulfilled r2 \<and> p3 = Fulfilled r3 \<longrightarrow>
      farms (fetchDashboardData p1 p2 p3 st) =
        (case data r1 of None \<Rightarrow> farms st | Some v \<Rightarrow> v) \<and>
      predictions (fetchDashboardData p1 p2 p3 st) =
        (case data r2 of None \<Rightarrow> predictions st | Some v \<Rightarrow> v) \<and>
      profile (fetchDashboardData p1 p2 p3 st) =
        (case data r3 of None \<Rightarrow> profile st | Some v \<Rightarrow> Some v)"
  proof (intro allI impI, elim conjE)
    fix r1 r2 r3
    assume "p1 = Fulfilled r1" "p2 = Fulfilled r2" "p3 = Fulfilled r3"
    then show "farms (fetchDashboardData p1 p2 p3 st) =
        (case data r1 of None \<Rightarrow> farms st | Some v \<Rightarrow> v) \<and>
      predictions (fetchDashboardData p1 p2 p3 st) =
        (case data r2 of None \<Rightarrow> predictions st | Some v \<Rightarrow> v) \<and>
      profile (fetchDashboardData p1 p2 p3 st) =
        (case data r3 of None \<Rightarrow> profile st | Some v \<Rightarrow> Some v)"
      by (simp add: fetch_fulfilled)
  qed
  note d = render_after_fetch [OF loading_after_fetch [of p1 p2 p3 st], of toLocaleDateString]
  show ?thesis
    by (rule conjI [OF a conjI [OF b conjI [OF c d]]])
qed

theorem fetch_failure_keeps_slots_witness:
  "fetchDashboardData (Rejected ''Failed to fetch'')
     (Fulfilled \<lparr>data = Some [examplePrediction 1], error = None\<rparr>)
     (Fulfilled \<lparr>data = Some exampleProfile, error = None\<rparr>) initialDashboard
     = initialDashboard
         \<lparr>console := [(''Error fetching dashboard data:'', ''Failed to fetch'')],
          loading := False\<rparr> \<and>
   farms
     (fetchDashboardData (Fulfilled \<lparr>data = None, error = Some ''permission denied''\<rparr>)
        (Fulfilled \<lparr>data = Some [examplePrediction 1], error = None\<rparr>)
        (Fulfilled \<lparr>data = None, error = Some ''PGRST116''\<rparr>) initialDashboard)
     = [] \<and>
   predictions
     (fetchDashboardData (Fulfilled \<lparr>data = None, error = Some ''permission denied''\<rparr>)
        (Fulfilled \<lparr>data = Some [examplePrediction 1], error = None\<rparr>)
        (Fulfilled \<lparr>data = None, error = Some ''PGRST116''\<rparr>) initialDashboard)
     = [examplePrediction 1] \<and>
   profile
     (fetchDashboardData (Fulfilled \<lparr>data = None, error = Some ''permission denied''\<rparr>)
        (Fulfilled \<lparr>data = Some [examplePrediction 1], error = None\<rparr>)
        (Fulfilled \<lparr>data = None, error = Some ''PGRST116''\<rparr>) initialDashboard)
     = None"
proof -
  have first:
    "fetchDashboardData (Rejected ''Failed to fetch'')
       (Fulfilled \<lparr>data = Some [examplePrediction 1], error = None\<rparr>)
       (Fulfilled \<lparr>data = Some exampleProfile, error = None\<rparr>) initialDashboard
       = initialDashboard
           \<lparr>console := [(''Error fetching dashboard data:'', ''Failed to fetch'')],
            loading := False\<rparr>"
    using fetch_failure_keeps_slots
      [of "Rejected ''Failed to fetch''"
          "Fulfilled \<lparr>data = Some [examplePrediction 1], error = None\<rparr>"
          "Fulfilled \<lparr>data = Some exampleProfile, error = None\<rparr>" initialDashboard id]
    by (auto simp: initialDashboard_def)
  have second:
    "farms
       (fetchDashboardData (Fulfilled \<lparr>data = None, error = Some ''permission denied''\<rparr>)
          (Fulfilled \<lparr>data = Some [examplePrediction 1], error = None\<rparr>)
          (Fulfilled \<lparr>data = None, error = Some ''PGRST116''\<rparr>) initialDashboard)
       = [] \<and>
     predictions
       (fetchDashboardData (Fulfilled \<lparr>data = None, error = Some ''permission denied''\<rparr>)
          (Fulfilled \<lparr>data = Some [examplePrediction 1], error = None\<rparr>)
          (Fulfilled \<lparr>data = None, error = Some ''PGRST116''\<rparr>) initialDashboard)
       = [examplePrediction 1] \<and>
     profile
       (fetchDashboardData (Fulfilled \<lparr>data = None, error = Some ''permission denied''\<rparr>)
          (Fulfilled \<lparr>data = Some [examplePrediction 1], error = None\<rparr>)
          (Fulfilled \<lparr>data = None, error = Some ''PGRST116''\<rparr>) initialDashboard)
       = None"
    using fetch_failure_keeps_slots
      [of "Fulfilled \<lparr>data = None, error = Some ''permission denied''\<rparr>"
          "Fulfilled \<lparr>data = Some [examplePrediction 1], error = None\<rparr>"
          "Fulfilled \<lparr>data = None, error = Some ''PGRST116''\<rparr>" initialDashboard id]
    by (simp add: initialDashboard_def)
  from first second show ?thesis
    by (rule conjI)
qed

text \<open>
  A query that fails without its promise being rejected (the result has an error and no
  data) is not logged.
\<close>

theorem query_error_is_not_logged:
  "console
     (fetchDashboardData (Fulfilled \<lparr>data = None, error = Some ''permission denied''\<rparr>)
        (Fulfilled \<lparr>data = Some [], error = None\<rparr>)
        (Fulfilled \<lparr>data = None, error = Some ''PGRST116''\<rparr>) initialDashboard)
     = []"
  by (simp add: fetchDashboardData_def promiseAll_def initialDashboard_def)

end
